theory Spec2Isabelle
  imports Main "HOL-Library.Sublist"
begin

section \<open>JavaScript values\<close>

text \<open>
  The front end keeps its selection state in module-level variables that hold
  \<open>null\<close>, \<open>undefined\<close> or a string: the ids, names and dates of the JSON
  responses and the values of form controls are strings. HOL equality on \<open>jsval\<close> is
  JavaScript's strict equality \<open>===\<close> on these values, and \<open>truthy\<close> is the
  coercion applied by \<open>!v\<close>, \<open>v || w\<close>, \<open>v && w\<close> and \<open>v ? a : b\<close>.
\<close>

datatype jsval = Undefined | Null | Str string

fun truthy :: "jsval \<Rightarrow> bool" where
  "truthy Undefined = False"
| "truthy Null = False"
| "truthy (Str s) = (s \<noteq> [])"

text \<open>\<open>a || b\<close>\<close>

definition js_or :: "jsval \<Rightarrow> jsval \<Rightarrow> jsval" where
  "js_or a b = (if truthy a then a else b)"

section \<open>Call preparation: the recent-contacts cache\<close>

text \<open>
  An entry of \<open>prepRecentContactsList\<close>, as \<open>searchContactForPrep\<close> builds it:
  \<open>{id, name, email, company}\<close>.
\<close>

record recent_contact =
  rc_id :: jsval
  rc_name :: jsval
  rc_email :: jsval
  rc_company :: jsval

text \<open>
  \<open>self.findIndex(p)\<close>: the index of the first element satisfying \<open>p\<close>;
  JavaScript's \<open>-1\<close> (no such element) is \<open>None\<close>.
\<close>

fun findIndex :: "('a \<Rightarrow> bool) \<Rightarrow> 'a list \<Rightarrow> nat option" where
  "findIndex p [] = None"
| "findIndex p (x # xs) =
     (if p x then Some 0 else map_option Suc (findIndex p xs))"

text \<open>The callback of \<open>findIndex\<close> in \<open>savePrepRecentContact\<close>:
  \<open>t.email === item.email || t.id === item.id\<close>.\<close>

definition same_contact :: "recent_contact \<Rightarrow> recent_contact \<Rightarrow> bool" where
  "same_contact item t = (rc_email t = rc_email item \<or> rc_id t = rc_id item)"

text \<open>
  \<open>self.filter((item, index, self) => index === self.findIndex(...))\<close>: an entry
  stays when it is the first entry of the unfiltered list that matches it.
\<close>

definition remove_duplicates :: "recent_contact list \<Rightarrow> recent_contact list" where
  "remove_duplicates self =
     map snd (filter (\<lambda>(index, item). findIndex (same_contact item) self = Some index)
                     (enumerate 0 self))"

text \<open>
  \<open>savePrepRecentContact(contact)\<close>: \<open>unshift\<close>, the duplicate filter, then
  \<open>slice(0, 6)\<close>. The result is both the new \<open>prepRecentContactsList\<close> and the
  value serialised under \<open>localStorage['prep_recent_contacts']\<close>.
\<close>

definition savePrepRecentContact :: "recent_contact \<Rightarrow> recent_contact list \<Rightarrow> recent_contact list" where
  "savePrepRecentContact contact lst = take 6 (remove_duplicates (contact # lst))"

text \<open>A sequence of upserts, oldest first, applied to a starting cache.\<close>

definition save_all :: "recent_contact list \<Rightarrow> recent_contact list \<Rightarrow> recent_contact list" where
  "save_all lst contacts = foldl (\<lambda>l c. savePrepRecentContact c l) lst contacts"

text \<open>
  The deduplication key of the specification, \<open>email ?? id\<close>: the email unless it is
  \<open>null\<close> or \<open>undefined\<close>, then the id.
\<close>

definition dedup_key :: "recent_contact \<Rightarrow> jsval" where
  "dedup_key c =
     (if rc_email c = Null \<or> rc_email c = Undefined then rc_id c else rc_email c)"

text \<open>
  The only caller, \<open>searchContactForPrep\<close>, upserts the contact of the brief it has
  received, if the brief has one:
  \<open>{id: contact.id || contact.email, name: contact.name || query,
    email: contact.email || '', company: contact.company || ''}\<close>.
\<close>

record brief_contact =
  bc_id :: jsval
  bc_name :: jsval
  bc_email :: jsval
  bc_company :: jsval

definition recent_entry :: "brief_contact \<times> string \<Rightarrow> recent_contact" where
  "recent_entry call =
     \<lparr>rc_id = js_or (bc_id (fst call)) (bc_email (fst call)),
      rc_name = js_or (bc_name (fst call)) (Str (snd call)),
      rc_email = js_or (bc_email (fst call)) (Str []),
      rc_company = js_or (bc_company (fst call)) (Str [])\<rparr>"

text \<open>
  An entry whose email is a string, as every entry that the caller builds is (the empty
  string when the contact has no email).
\<close>

definition email_stored :: "recent_contact \<Rightarrow> bool" where
  "email_stored c = (case rc_email c of Str e \<Rightarrow> True | Null \<Rightarrow> False | Undefined \<Rightarrow> False)"


section \<open>Strings\<close>

text \<open>
  A \<open>char\<close> is a code unit below 256. \<open>String.prototype.trim\<close> strips white space
  and line terminators; those below 256 are tab, line feed, vertical tab, form feed,
  carriage return, space and the no-break space U+00A0.
\<close>

definition is_space :: "char \<Rightarrow> bool" where
  "is_space c = (c = CHR '' '' \<or> c = CHR 0x09 \<or> c = CHR 0x0A \<or> c = CHR 0x0B
                 \<or> c = CHR 0x0C \<or> c = CHR 0x0D \<or> c = CHR 0xA0)"

definition trim :: "string \<Rightarrow> string" where
  "trim s = rev (dropWhile is_space (rev (dropWhile is_space s)))"

text \<open>\<open>s.split(sep)[0]\<close>: the text before the first occurrence of \<open>sep\<close>.\<close>

fun split_head :: "string \<Rightarrow> string \<Rightarrow> string" where
  "split_head sep [] = []"
| "split_head sep (c # cs) = (if prefix sep (c # cs) then [] else c # split_head sep cs)"

text \<open>A value inside a template literal: \<open>`${v}`\<close>.\<close>

fun js_to_string :: "jsval \<Rightarrow> string" where
  "js_to_string Undefined = ''undefined''"
| "js_to_string Null = ''null''"
| "js_to_string (Str s) = s"

text \<open>\<open>v || ''\<close> read as a string.\<close>

fun str_or_empty :: "jsval \<Rightarrow> string" where
  "str_or_empty (Str s) = s"
| "str_or_empty v = []"

text \<open>\<open>s.includes(sub)\<close>\<close>

fun js_includes :: "string \<Rightarrow> string \<Rightarrow> bool" where
  "js_includes [] sub = (sub = [])"
| "js_includes (c # cs) sub = (prefix sub (c # cs) \<or> js_includes cs sub)"

text \<open>
  \<open>s.toLowerCase()\<close> on the letters A to Z; no other code unit below 256 becomes one
  of the letters a to z.
\<close>

definition lower_char :: "char \<Rightarrow> char" where
  "lower_char c =
     (if (65::nat) \<le> of_char c \<and> of_char c \<le> (90::nat) then char_of (of_char c + (32::nat)) else c)"

definition toLowerCase :: "string \<Rightarrow> string" where
  "toLowerCase s = map lower_char s"

section \<open>The parsed-notes preview\<close>

text \<open>
  The response of \<open>/api/process-notes\<close>. A field that holds an object or an array is
  an \<open>option\<close>: \<open>None\<close> is an absent or \<open>null\<close> field, and \<open>Some\<close> is truthy
  whatever it holds (an empty array is truthy in JavaScript).
\<close>

record contact =
  c_id :: jsval
  firstname :: jsval
  lastname :: jsval
  c_email :: jsval
  company :: jsval

record parsed_contact_data =
  person_name :: jsval
  pc_email :: jsval
  company_name :: jsval

record parsed_deal_data =
  deal_name :: jsval
  suggested_stage :: jsval
  suggested_next_step :: jsval
  search_keywords :: jsval

record deal =
  d_id :: jsval
  d_name :: jsval
  amount :: jsval
  stage :: jsval
  next_step :: jsval
  next_step_date :: jsval

record todo =
  task_name :: jsval
  due_date :: jsval
  t_next_step :: jsval

record notion_investor_data =
  found :: bool
  page_id :: jsval
  ni_name :: jsval

text \<open>A value of the \<open>preferences\<close> object: free text, a list of options, or \<open>null\<close>.\<close>

datatype pref_value = PStr string | PArr "string list" | PNull

text \<open>
  \<open>preferences\<close> is the object's entries in the order of \<open>Object.keys\<close>; the keys of
  an object are distinct.
\<close>

record preview =
  raw_notes :: jsval
  summary :: "string list option"
  parsed_contact :: "parsed_contact_data option"
  parsed_deal :: "parsed_deal_data option"
  hubspot_contacts :: "contact list option"
  hubspot_deals :: "deal list option"
  deal_status :: jsval
  preferences :: "(string \<times> pref_value) list option"
  notion_investor :: "notion_investor_data option"
  todos :: "todo list option"

section \<open>The page state\<close>

text \<open>\<open>submissionPageActions\<close>: the master toggles as they stood when the notes were sent.\<close>

record submission_actions =
  enable_hubspot_note :: bool
  enable_investor_prefs :: bool
  enable_todos :: bool

text \<open>
  A row of the to-do table: the check box \<open>.todo-checkbox[data-index]\<close> and the
  \<open>select.todo-date-selector[data-index]\<close> with the values of its options.
\<close>

record todo_row =
  row_index :: nat
  row_checked :: bool
  row_options :: "string list"
  row_date :: string

text \<open>
  The texts of \<open>showPreviewError\<close>:
  \<^item> \<open>SelectAtLeastOneAction\<close>: "Please select at least one action to perform. You cannot
    skip all actions.";
  \<^item> \<open>SelectContactOrDeal\<close>: "Please select a HubSpot contact or deal, or choose 'Skip
    HubSpot' option.";
  \<^item> \<open>SelectDeal\<close>: "Please select a deal from the dropdown, or choose 'Log call note
    only' instead.";
  \<^item> \<open>NoData\<close>: "No data to process. Please try again.";
  \<^item> \<open>MissingCompanyName\<close>: "Cannot create investor: missing company name";
  \<^item> \<open>ErrorText m\<close>: the message \<open>m\<close> of a caught exception.
\<close>

datatype preview_message =
  SelectAtLeastOneAction | SelectContactOrDeal | SelectDeal | NoData | MissingCompanyName
  | ErrorText string

text \<open>
  The text that \<open>getHelpfulErrorMessage\<close> returns: the error as it is, or the error
  followed by one of three fixed paragraphs of suggestions.
\<close>

datatype suggestions = TrySearchingByEmail | CheckYourConnection | ContactSupport

datatype helpful_message = Plain string | WithSuggestions string suggestions

text \<open>An exception thrown by the script itself.\<close>

datatype js_error = TypeError

text \<open>
  The module-level variables of the script (first block) and the part of the document
  that the handlers read back: the checked radio button of \<open>hubspot-action\<close>, the check
  boxes (\<open>None\<close> for a master check box that the page does not have, which the script
  guards with \<open>?.\<close> and \<open>??\<close>), the text fields, the to-do rows, the error
  banners of the notes form, of the preview and of the call-preparation tab, and the
  \<open>hidden\<close> class of the sections and cards. Texts that are only
  displayed (names, statuses, the execution summary list, the progress steps) are not
  part of the state. The page's HTML is not among the sources: every element that the
  script dereferences without a guard exists, and a form control holds the value last
  assigned to it.
\<close>

record page =
  processedData :: "preview option"
  selectedContactId :: jsval
  selectedContactName :: jsval
  skipHubspot :: bool
  skipInvestorPrefs :: bool
  investorPageId :: jsval
  selectedInvestorId :: jsval
  selectedInvestorName :: jsval
  selectedDealId :: jsval
  selectedDealData :: "deal option"
  hubspotAction :: string
  submissionPageActions :: submission_actions
  hubspotActionRadio :: "string option"
  enableHubspotNoteCheckbox :: "bool option"
  enableInvestorPrefsCheckbox :: "bool option"
  enableTodosCheckbox :: "bool option"
  updateInvestorPrefsCheckbox :: bool
  createTodosCheckbox :: bool
  createFutureTaskCheckbox :: bool
  taskTitleInput :: string
  taskDueDaysSelect :: "int option"
  dealNameInput :: string
  dealStageInput :: string
  dealNextStepInput :: string
  dealNextStepDateInput :: string
  notesInput :: string
  todoRows :: "todo_row list"
  errorMessage :: "string option"
  previewErrorMessage :: "preview_message option"
  prepErrorMessage :: "helpful_message option"
  prepSearchSectionHidden :: bool
  prepLoadingSectionHidden :: bool
  prepErrorSectionHidden :: bool
  prepBriefSectionHidden :: bool
  confirmBtnDisabled :: bool
  cancelBtnDisabled :: bool
  inputSectionHidden :: bool
  loadingSectionHidden :: bool
  resultsSectionHidden :: bool
  executionLoadingSectionHidden :: bool
  successSectionHidden :: bool
  singleContactHidden :: bool
  multipleContactsHidden :: bool
  noContactHidden :: bool
  investorFoundHidden :: bool
  multipleInvestorsHidden :: bool
  investorNotFoundHidden :: bool
  hubspotActionsCardHidden :: bool
  dealSelectionHidden :: bool
  dealDetailsHidden :: bool

text \<open>
  \<open>taskDueDaysSelect\<close> is \<open>parseInt(taskDueDaysSelect.value)\<close>, \<open>None\<close> for \<open>NaN\<close>.
\<close>

subsection \<open>Sections and banners\<close>

definition showInput :: "page \<Rightarrow> page" where
  "showInput st = st\<lparr>inputSectionHidden := False, loadingSectionHidden := True,
     resultsSectionHidden := True, executionLoadingSectionHidden := True,
     successSectionHidden := True\<rparr>"

definition showLoading :: "page \<Rightarrow> page" where
  "showLoading st = st\<lparr>inputSectionHidden := True, loadingSectionHidden := False,
     resultsSectionHidden := True, successSectionHidden := True\<rparr>"

definition showResults :: "page \<Rightarrow> page" where
  "showResults st = st\<lparr>inputSectionHidden := True, loadingSectionHidden := True,
     resultsSectionHidden := False, executionLoadingSectionHidden := True,
     successSectionHidden := True, confirmBtnDisabled := False, cancelBtnDisabled := False\<rparr>"

definition showExecutionLoading :: "page \<Rightarrow> page" where
  "showExecutionLoading st =
     st\<lparr>resultsSectionHidden := True, executionLoadingSectionHidden := False\<rparr>"

definition showPrepSection :: "string \<Rightarrow> page \<Rightarrow> page" where
  "showPrepSection sectionName st =
     (let st1 = st\<lparr>prepSearchSectionHidden := True, prepLoadingSectionHidden := True,
                     prepErrorSectionHidden := True, prepBriefSectionHidden := True\<rparr>
      in if sectionName = ''search'' then st1\<lparr>prepSearchSectionHidden := False\<rparr>
         else if sectionName = ''loading'' then st1\<lparr>prepLoadingSectionHidden := False\<rparr>
         else if sectionName = ''error'' then st1\<lparr>prepErrorSectionHidden := False\<rparr>
         else if sectionName = ''brief'' then st1\<lparr>prepBriefSectionHidden := False\<rparr>
         else st1)"

definition getHelpfulErrorMessage :: "string \<Rightarrow> helpful_message" where
  "getHelpfulErrorMessage error =
     (let errorLower = toLowerCase error
      in if js_includes errorLower ''contact not found''
         then WithSuggestions error TrySearchingByEmail
         else if js_includes errorLower ''network'' \<or> js_includes errorLower ''timeout''
                 \<or> js_includes errorLower ''fetch''
         then WithSuggestions error CheckYourConnection
         else if js_includes errorLower ''api'' \<or> js_includes errorLower ''key''
         then WithSuggestions error ContactSupport
         else Plain error)"

text \<open>
  The script declares \<open>function showError\<close> twice. The later declaration, the one of
  the call-preparation tab, is the one that every call runs: it writes the helpful
  message into \<open>prep-error-message\<close> and shows the error section of that tab. The
  banner \<open>error-message\<close> of the notes form is only ever cleared, by \<open>hideError\<close>.
\<close>

definition showError :: "string \<Rightarrow> page \<Rightarrow> page" where
  "showError message st =
     showPrepSection ''error'' (st\<lparr>prepErrorMessage := Some (getHelpfulErrorMessage message)\<rparr>)"

definition hideError :: "page \<Rightarrow> page" where
  "hideError st = st\<lparr>errorMessage := None\<rparr>"

definition showPreviewError :: "preview_message \<Rightarrow> page \<Rightarrow> page" where
  "showPreviewError message st = st\<lparr>previewErrorMessage := Some message\<rparr>"

definition hidePreviewError :: "page \<Rightarrow> page" where
  "hidePreviewError st = st\<lparr>previewErrorMessage := None\<rparr>"

section \<open>Rendering the preview\<close>

text \<open>
  The date strings come from the browser's clock: \<open>clock n\<close> is the value of
  \<open>d = new Date(); d.setDate(d.getDate() + n); d.toISOString().split('T')[0]\<close>.
\<close>

definition getDateDaysFromNow :: "(nat \<Rightarrow> string) \<Rightarrow> nat \<Rightarrow> string" where
  "getDateDaysFromNow clock days = clock days"

text \<open>
  \<open>updateTaskTitle\<close> fills the empty title field of the follow-up task.
\<close>

definition updateTaskTitle :: "page \<Rightarrow> page" where
  "updateTaskTitle st =
     (if truthy (selectedContactName st) \<and> taskTitleInput st = []
      then st\<lparr>taskTitleInput := ''Check in with '' @ js_to_string (selectedContactName st)\<rparr>
      else st)"

definition showHubSpotActionsCard :: "page \<Rightarrow> page" where
  "showHubSpotActionsCard st =
     (if \<not> truthy (selectedContactId st) \<or> \<not> truthy (selectedContactName st)
      then st\<lparr>hubspotActionsCardHidden := True\<rparr>
      else (updateTaskTitle
              (st\<lparr>hubspotActionsCardHidden := False, hubspotAction := ''log_only'',
                  hubspotActionRadio := Some ''log_only'', dealSelectionHidden := True,
                  selectedDealId := Null\<rparr>))
           \<lparr>skipHubspot := False\<rparr>)"

text \<open>
  \<open>`${contact.firstname || ''} ${contact.lastname || ''}`.trim() || 'N/A'\<close>
\<close>

definition fullName :: "contact \<Rightarrow> string" where
  "fullName contact =
     (let s = trim (str_or_empty (firstname contact) @ '' '' @ str_or_empty (lastname contact))
      in if s = [] then ''N/A'' else s)"

definition displayContactSection :: "preview \<Rightarrow> page \<Rightarrow> page" where
  "displayContactSection preview st =
     (let st1 = st\<lparr>singleContactHidden := True, multipleContactsHidden := True,
                     noContactHidden := True\<rparr>;
          contacts = (case hubspot_contacts preview of None \<Rightarrow> [] | Some cs \<Rightarrow> cs)
      in if length contacts = 1
         then showHubSpotActionsCard
                (st1\<lparr>selectedContactId := c_id (contacts ! 0),
                     selectedContactName := Str (fullName (contacts ! 0)),
                     singleContactHidden := False\<rparr>)
         else if length contacts > 1
         then st1\<lparr>multipleContactsHidden := False\<rparr>
         else st1\<lparr>noContactHidden := False\<rparr>)"

text \<open>
  \<open>showDealCreationMode(suggestedData)\<close>, given the three fields of its argument.
\<close>

definition showDealCreationMode :: "(nat \<Rightarrow> string) \<Rightarrow> jsval \<Rightarrow> jsval \<Rightarrow> jsval \<Rightarrow> page \<Rightarrow> page" where
  "showDealCreationMode clock sd_deal_name sd_suggested_stage sd_suggested_next_step st =
     st\<lparr>dealNameInput := str_or_empty sd_deal_name,
        dealStageInput := (if truthy sd_suggested_stage then js_to_string sd_suggested_stage
                           else ''appointmentscheduled''),
        dealNextStepInput := str_or_empty sd_suggested_next_step,
        dealNextStepDateInput := (if dealNextStepDateInput st = [] then clock 1
                                  else dealNextStepDateInput st),
        dealDetailsHidden := False\<rparr>"

text \<open>
  \<open>displayParsedDeals\<close>: with deals found it only fills the search drop-down; with
  \<open>deal_status === 'not_found'\<close> and a deal name it opens the creation form.
\<close>

definition displayParsedDeals :: "(nat \<Rightarrow> string) \<Rightarrow> preview \<Rightarrow> page \<Rightarrow> page" where
  "displayParsedDeals clock preview st =
     (let deals = (case hubspot_deals preview of None \<Rightarrow> [] | Some ds \<Rightarrow> ds);
          dealStatus = deal_status preview
      in if dealStatus = Str ''found'' \<and> length deals > 0 then st
         else if dealStatus = Str ''not_found''
         then (let pd_deal_name = (case parsed_deal preview of None \<Rightarrow> Undefined
                                   | Some pd \<Rightarrow> deal_name pd);
                   pd_search_keywords = (case parsed_deal preview of None \<Rightarrow> Undefined
                                         | Some pd \<Rightarrow> search_keywords pd);
                   pd_suggested_stage = (case parsed_deal preview of None \<Rightarrow> Undefined
                                         | Some pd \<Rightarrow> suggested_stage pd);
                   pd_suggested_next_step = (case parsed_deal preview of None \<Rightarrow> Undefined
                                             | Some pd \<Rightarrow> suggested_next_step pd);
                   dealName = js_or pd_deal_name pd_search_keywords
               in if truthy dealName
                  then showDealCreationMode clock dealName
                         (js_or pd_suggested_stage (Str ''appointmentscheduled''))
                         (js_or pd_suggested_next_step (Str [])) st
                  else st)
         else st)"

text \<open>
  The callback of \<open>Object.keys(preferences).some(...)\<close>. For the key
  \<open>'Preference Notes'\<close> it evaluates \<open>value && value.trim().length > 0\<close>, which
  throws on an array (\<open>value.trim\<close> is not a function); for every other key
  \<open>Array.isArray(value) && value.length > 0\<close>.
\<close>

fun has_preference_value :: "string \<times> pref_value \<Rightarrow> js_error + bool" where
  "has_preference_value (key, value) =
     (if key = ''Preference Notes''
      then (case value of
              PNull \<Rightarrow> Inr False
            | PStr s \<Rightarrow> Inr (s \<noteq> [] \<and> length (trim s) > 0)
            | PArr xs \<Rightarrow> Inl TypeError)
      else (case value of
              PArr xs \<Rightarrow> Inr (length xs > 0)
            | PStr s \<Rightarrow> Inr False
            | PNull \<Rightarrow> Inr False))"

text \<open>\<open>some\<close> stops at the first entry whose callback returns true.\<close>

fun hasPreferences :: "(string \<times> pref_value) list \<Rightarrow> js_error + bool" where
  "hasPreferences [] = Inr False"
| "hasPreferences (e # es) =
     (case has_preference_value e of
        Inl err \<Rightarrow> Inl err
      | Inr b \<Rightarrow> (if b then Inr True else hasPreferences es))"

definition displayPreferences :: "preview \<Rightarrow> page \<Rightarrow> js_error + page" where
  "displayPreferences preview st =
     (case hasPreferences (case preferences preview of None \<Rightarrow> [] | Some ps \<Rightarrow> ps) of
        Inl err \<Rightarrow> Inl err
      | Inr has \<Rightarrow>
          (let st1 = st\<lparr>investorFoundHidden := True, multipleInvestorsHidden := True,
                          investorNotFoundHidden := True\<rparr>
           in if \<not> has
              then Inr (st1\<lparr>updateInvestorPrefsCheckbox := False, skipInvestorPrefs := True\<rparr>)
              else (case notion_investor preview of
                      None \<Rightarrow> Inr (st1\<lparr>investorNotFoundHidden := False\<rparr>)
                    | Some notionInvestor \<Rightarrow>
                        (if found notionInvestor
                         then Inr (st1\<lparr>investorPageId := page_id notionInvestor,
                                        investorFoundHidden := False\<rparr>)
                         else Inr (st1\<lparr>investorNotFoundHidden := False\<rparr>)))))"

text \<open>
  \<open>displayTodos\<close> rebuilds the table: one row per to-do, checked, with the four date
  options and tomorrow selected.
\<close>

definition dates :: "(nat \<Rightarrow> string) \<Rightarrow> string list" where
  "dates clock = [clock 1, getDateDaysFromNow clock 7, getDateDaysFromNow clock 30,
                  getDateDaysFromNow clock 90]"

definition new_todo_row :: "(nat \<Rightarrow> string) \<Rightarrow> nat \<Rightarrow> todo_row" where
  "new_todo_row clock index =
     \<lparr>row_index = index, row_checked = True, row_options = dates clock, row_date = clock 1\<rparr>"

definition displayTodos :: "(nat \<Rightarrow> string) \<Rightarrow> todo list \<Rightarrow> page \<Rightarrow> page" where
  "displayTodos clock tds st = st\<lparr>todoRows := map (new_todo_row clock) [0..<length tds]\<rparr>"

text \<open>
  \<open>displayPreview\<close>. An exception of \<open>displayPreferences\<close> leaves the state as the
  earlier steps made it; the caller catches it. \<open>displaySummary\<close> and
  \<open>updateExecutionSummary\<close> only write displayed text.
\<close>

definition resetSelections :: "page \<Rightarrow> page" where
  "resetSelections st =
     st\<lparr>selectedContactId := Null, selectedContactName := Null, skipHubspot := False,
        skipInvestorPrefs := False, investorPageId := Null, selectedDealId := Null,
        hubspotAction := ''log_only'', hubspotActionsCardHidden := True,
        dealSelectionHidden := True, hubspotActionRadio := Some ''log_only'',
        updateInvestorPrefsCheckbox := enable_investor_prefs (submissionPageActions st),
        createTodosCheckbox := enable_todos (submissionPageActions st)\<rparr>"

definition displayPreview :: "(nat \<Rightarrow> string) \<Rightarrow> preview \<Rightarrow> page \<Rightarrow> page \<times> js_error option" where
  "displayPreview clock preview st =
     (let st1 = resetSelections st;
          st2 = displayContactSection preview st1;
          st3 = displayParsedDeals clock preview st2
      in case displayPreferences preview st3 of
           Inl err \<Rightarrow> (st3, Some err)
         | Inr st4 \<Rightarrow>
             (showResults
                (displayTodos clock (case todos preview of None \<Rightarrow> [] | Some ts \<Rightarrow> ts) st4),
              None))"

text \<open>
  \<open>handleProcessNotes\<close> with the outcome of the request as \<open>response\<close>: \<open>Inl\<close> the
  message of the error thrown for a failed request, \<open>Inr\<close> the preview. The \<open>catch\<close>
  shows \<open>error.message || 'An error occurred while processing notes.'\<close>.
\<close>

definition caught_message :: "string \<Rightarrow> string" where
  "caught_message message =
     (if message = [] then ''An error occurred while processing notes.'' else message)"

definition handleProcessNotes :: "(nat \<Rightarrow> string) \<Rightarrow> string + preview \<Rightarrow> page \<Rightarrow> page" where
  "handleProcessNotes clock response st =
     (if trim (notesInput st) = []
      then showError ''Please enter some notes to process.'' st
      else (let st1 = showLoading (hideError st)
            in case (enableHubspotNoteCheckbox st1, enableInvestorPrefsCheckbox st1,
                     enableTodosCheckbox st1) of
                 (Some enableHubspotNote, Some enableInvestorPrefs, Some enableTodos) \<Rightarrow>
                   (let st2 = st1\<lparr>submissionPageActions :=
                                \<lparr>enable_hubspot_note = enableHubspotNote,
                                 enable_investor_prefs = enableInvestorPrefs,
                                 enable_todos = enableTodos\<rparr>\<rparr>
                    in case response of
                         Inl message \<Rightarrow> showInput (showError (caught_message message) st2)
                       | Inr preview \<Rightarrow>
                           (case displayPreview clock preview (st2\<lparr>processedData := Some preview\<rparr>) of
                              (st3, None) \<Rightarrow> st3
                            | (st3, Some err) \<Rightarrow> showInput (showError (caught_message ''TypeError'') st3)))
               | _ \<Rightarrow> showInput (showError (caught_message ''TypeError'') st1)))"

section \<open>Event handlers of the preview page\<close>

text \<open>
  Each handler takes what it reads from its event: the \<open>value\<close> of the control, or
  the chosen \<open>option\<close> with the data attached to it. The browser has already applied
  the user's change to the control when the handler runs; \<open>fire\<close> below does both.
\<close>

text \<open>
  \<open>handleContactSelection\<close>: \<open>value\<close> and \<open>textContent\<close> of the chosen option of
  \<open>contact-select\<close>.
\<close>

definition handleContactSelection :: "string \<Rightarrow> string \<Rightarrow> page \<Rightarrow> page" where
  "handleContactSelection target_value option_text st =
     (let st1 = st\<lparr>selectedContactId := Str target_value\<rparr>;
          st2 = (if option_text \<noteq> []
                 then st1\<lparr>selectedContactName := Str (split_head '' - '' option_text)\<rparr>
                 else st1)
      in if truthy (selectedContactId st2) then showHubSpotActionsCard st2 else st2)"

definition handleSkipHubspot :: "page \<Rightarrow> page" where
  "handleSkipHubspot st = st\<lparr>skipHubspot := True, selectedContactId := Null\<rparr>"

text \<open>
  \<open>handleContactOptionClick\<close>, given \<open>card.dataset.option\<close>: it hides the contact
  sections and, for the card \<open>'skip'\<close>, calls \<open>handleSkipHubspot\<close>; the other cards open
  a form.
\<close>

definition handleContactOptionClick :: "string \<Rightarrow> page \<Rightarrow> page" where
  "handleContactOptionClick option st =
     (let st1 = st\<lparr>singleContactHidden := True, multipleContactsHidden := True\<rparr>
      in if option = ''skip'' then handleSkipHubspot st1 else st1)"

definition handleInvestorSelection :: "string \<Rightarrow> page \<Rightarrow> page" where
  "handleInvestorSelection target_value st =
     (let st1 = st\<lparr>investorPageId := Str target_value\<rparr>
      in st1\<lparr>skipInvestorPrefs := (if truthy (investorPageId st1) then False else True)\<rparr>)"

definition handleSkipInvestorPrefs :: "page \<Rightarrow> page" where
  "handleSkipInvestorPrefs st = st\<lparr>skipInvestorPrefs := True, investorPageId := Null\<rparr>"

text \<open>
  \<open>handleInvestorOptionClick\<close>, given \<open>card.dataset.option\<close>: it hides the investor
  sections and, for the card \<open>'skip-investor'\<close>, calls \<open>handleSkipInvestorPrefs\<close>; the
  other cards open a form.
\<close>

definition handleInvestorOptionClick :: "string \<Rightarrow> page \<Rightarrow> page" where
  "handleInvestorOptionClick option st =
     (let st1 = st\<lparr>investorFoundHidden := True, multipleInvestorsHidden := True\<rparr>
      in if option = ''skip-investor'' then handleSkipInvestorPrefs st1 else st1)"

definition handleCreateInvestor :: "page \<Rightarrow> page" where
  "handleCreateInvestor st =
     (let companyName =
            (case processedData st of
               None \<Rightarrow> Undefined
             | Some pd \<Rightarrow> (case parsed_contact pd of None \<Rightarrow> Undefined
                            | Some pc \<Rightarrow> company_name pc))
      in if \<not> truthy companyName then showPreviewError MissingCompanyName st
         else st\<lparr>investorPageId := Str ''CREATE_NEW'', skipInvestorPrefs := False,
                 investorNotFoundHidden := True, investorFoundHidden := False\<rparr>)"

text \<open>
  \<open>handleHubSpotActionChange\<close>: the value of the radio button. For
  \<open>'log_with_deal'\<close> it awaits \<open>fetchDealsForContact\<close>, which catches its own errors
  and only fills the deal drop-down.
\<close>

definition handleHubSpotActionChange :: "string \<Rightarrow> page \<Rightarrow> page" where
  "handleHubSpotActionChange target_value st =
     (let st1 = st\<lparr>hubspotAction := target_value\<rparr>
      in if hubspotAction st1 = ''log_with_deal''
         then st1\<lparr>dealSelectionHidden := False, skipHubspot := False\<rparr>
         else if hubspotAction st1 = ''skip''
         then st1\<lparr>dealSelectionHidden := True, selectedDealId := Null, skipHubspot := True\<rparr>
         else st1\<lparr>dealSelectionHidden := True, selectedDealId := Null, skipHubspot := False\<rparr>)"

definition populateDealFields :: "deal \<Rightarrow> page \<Rightarrow> page" where
  "populateDealFields dealData st =
     st\<lparr>dealNameInput := str_or_empty (d_name dealData),
        dealStageInput := str_or_empty (stage dealData),
        dealNextStepInput := str_or_empty (next_step dealData),
        dealNextStepDateInput := str_or_empty (next_step_date dealData)\<rparr>"

text \<open>
  \<open>handleDealSelection\<close>: the value of the chosen option of \<open>deal-dropdown\<close> and the
  \<open>dealData\<close> attached to it (none on the placeholder).
\<close>

definition handleDealSelection :: "string \<Rightarrow> deal option \<Rightarrow> page \<Rightarrow> page" where
  "handleDealSelection target_value option_dealData st =
     (let st1 = st\<lparr>selectedDealId := Str target_value\<rparr>
      in if truthy (selectedDealId st1)
         then (case option_dealData of
                 Some dealData \<Rightarrow>
                   (populateDealFields dealData (st1\<lparr>selectedDealData := Some dealData\<rparr>))
                   \<lparr>dealDetailsHidden := False\<rparr>
               | None \<Rightarrow> st1)
         else st1\<lparr>dealDetailsHidden := True, selectedDealData := None\<rparr>)"

text \<open>\<open>handleDealSearchSelection\<close>: the same for \<open>deal-search-dropdown\<close>.\<close>

definition handleDealSearchSelection :: "string \<Rightarrow> deal option \<Rightarrow> page \<Rightarrow> page" where
  "handleDealSearchSelection target_value option_dealData st =
     (let st1 = st\<lparr>selectedDealId := Str target_value\<rparr>
      in if truthy (selectedDealId st1)
         then (case option_dealData of
                 Some dealData \<Rightarrow>
                   (populateDealFields dealData (st1\<lparr>selectedDealData := Some dealData\<rparr>))
                   \<lparr>dealDetailsHidden := False\<rparr>
               | None \<Rightarrow> st1)
         else st1\<lparr>selectedDealData := None, dealDetailsHidden := True\<rparr>)"

definition handleInvestorPrefsCheckboxChange :: "bool \<Rightarrow> page \<Rightarrow> page" where
  "handleInvestorPrefsCheckboxChange isChecked st =
     (if isChecked then st\<lparr>skipInvestorPrefs := False\<rparr> else st\<lparr>skipInvestorPrefs := True\<rparr>)"

text \<open>
  \<open>handleSelectAllTodos\<close> sets every row's check box; \<open>handleTodosCheckboxChange\<close>,
  \<open>handleFutureTaskCheckboxChange\<close>, \<open>handleTodoCheckboxChange\<close> and
  \<open>handleTodoDateChange\<close> change classes and displayed text only.
\<close>

definition handleSelectAllTodos :: "bool \<Rightarrow> page \<Rightarrow> page" where
  "handleSelectAllTodos isChecked st =
     st\<lparr>todoRows := map (\<lambda>row. row\<lparr>row_checked := isChecked\<rparr>) (todoRows st)\<rparr>"

definition handleCancel :: "page \<Rightarrow> page" where
  "handleCancel st =
     showInput (hidePreviewError
       (st\<lparr>processedData := None, selectedContactId := Null, selectedContactName := Null,
           skipHubspot := False, skipInvestorPrefs := False, investorPageId := Null\<rparr>))"

definition handleNewNotes :: "page \<Rightarrow> page" where
  "handleNewNotes st =
     showInput (hidePreviewError (hideError
       (st\<lparr>processedData := None, selectedContactId := Null, selectedContactName := Null,
           selectedDealId := Null, selectedInvestorId := Null, selectedInvestorName := Null,
           investorPageId := Null, skipHubspot := False, skipInvestorPrefs := False,
           notesInput := [], updateInvestorPrefsCheckbox := True, createTodosCheckbox := True,
           confirmBtnDisabled := False, cancelBtnDisabled := False\<rparr>)))"

subsection \<open>User actions\<close>

text \<open>
  What the user can do on the preview page, with the change the browser makes to the
  control before it calls the handler. A to-do row is addressed by its position in the
  table, a date by its position among the options of the row's selector. The search
  and create sub-flows (\<open>handleSearchAgain\<close>, \<open>handleCreateContact\<close>,
  \<open>handleSearchInvestor\<close>, \<open>handleSearchDeals\<close>, \<open>handleCreateDeal\<close>) exchange
  requests with the server and assign the same selection variables as the handlers
  above; they touch neither \<open>processedData\<close> nor the to-do table and are not among
  the actions.
\<close>

datatype event =
    ContactSelected string string
  | SkipHubspotClicked
  | ContactOptionClicked string
  | InvestorOptionClicked string
  | InvestorSelected string
  | SkipInvestorPrefsClicked
  | CreateInvestorClicked
  | HubSpotActionChosen string
  | DealSelected string "deal option"
  | DealSearchSelected string "deal option"
  | InvestorPrefsToggled bool
  | TodosToggled bool
  | FutureTaskToggled bool
  | TaskTitleTyped string
  | TaskDueDaysChosen "int option"
  | DealStageTyped string
  | DealNextStepTyped string
  | DealNextStepDateTyped string
  | MasterHubspotToggled bool
  | MasterInvestorPrefsToggled bool
  | MasterTodosToggled bool
  | TodoToggled nat bool
  | TodoDateChosen nat nat
  | SelectAllTodosToggled bool

definition set_row_checked :: "nat \<Rightarrow> bool \<Rightarrow> todo_row list \<Rightarrow> todo_row list" where
  "set_row_checked i b rows =
     (if i < length rows then rows[i := (rows ! i)\<lparr>row_checked := b\<rparr>] else rows)"

definition choose_row_date :: "nat \<Rightarrow> nat \<Rightarrow> todo_row list \<Rightarrow> todo_row list" where
  "choose_row_date i k rows =
     (if i < length rows \<and> k < length (row_options (rows ! i))
      then rows[i := (rows ! i)\<lparr>row_date := row_options (rows ! i) ! k\<rparr>]
      else rows)"

text \<open>A master check box that the page does not have cannot be toggled.\<close>

definition toggle_master :: "bool \<Rightarrow> bool option \<Rightarrow> bool option" where
  "toggle_master b box = (case box of None \<Rightarrow> None | Some old \<Rightarrow> Some b)"

fun fire :: "event \<Rightarrow> page \<Rightarrow> page" where
  "fire (ContactSelected v text) st = handleContactSelection v text st"
| "fire SkipHubspotClicked st = handleSkipHubspot st"
| "fire (ContactOptionClicked option) st = handleContactOptionClick option st"
| "fire (InvestorOptionClicked option) st = handleInvestorOptionClick option st"
| "fire (InvestorSelected v) st = handleInvestorSelection v st"
| "fire SkipInvestorPrefsClicked st = handleSkipInvestorPrefs st"
| "fire CreateInvestorClicked st = handleCreateInvestor st"
| "fire (HubSpotActionChosen v) st =
     handleHubSpotActionChange v (st\<lparr>hubspotActionRadio := Some v\<rparr>)"
| "fire (DealSelected v d) st = handleDealSelection v d st"
| "fire (DealSearchSelected v d) st = handleDealSearchSelection v d st"
| "fire (InvestorPrefsToggled b) st =
     handleInvestorPrefsCheckboxChange b (st\<lparr>updateInvestorPrefsCheckbox := b\<rparr>)"
| "fire (TodosToggled b) st = st\<lparr>createTodosCheckbox := b\<rparr>"
| "fire (FutureTaskToggled b) st = st\<lparr>createFutureTaskCheckbox := b\<rparr>"
| "fire (TaskTitleTyped s) st = st\<lparr>taskTitleInput := s\<rparr>"
| "fire (TaskDueDaysChosen n) st = st\<lparr>taskDueDaysSelect := n\<rparr>"
| "fire (DealStageTyped s) st = st\<lparr>dealStageInput := s\<rparr>"
| "fire (DealNextStepTyped s) st = st\<lparr>dealNextStepInput := s\<rparr>"
| "fire (DealNextStepDateTyped s) st = st\<lparr>dealNextStepDateInput := s\<rparr>"
| "fire (MasterHubspotToggled b) st =
     st\<lparr>enableHubspotNoteCheckbox := toggle_master b (enableHubspotNoteCheckbox st)\<rparr>"
| "fire (MasterInvestorPrefsToggled b) st =
     st\<lparr>enableInvestorPrefsCheckbox := toggle_master b (enableInvestorPrefsCheckbox st)\<rparr>"
| "fire (MasterTodosToggled b) st =
     st\<lparr>enableTodosCheckbox := toggle_master b (enableTodosCheckbox st)\<rparr>"
| "fire (TodoToggled i b) st = st\<lparr>todoRows := set_row_checked i b (todoRows st)\<rparr>"
| "fire (TodoDateChosen i k) st = st\<lparr>todoRows := choose_row_date i k (todoRows st)\<rparr>"
| "fire (SelectAllTodosToggled b) st = handleSelectAllTodos b st"

text \<open>A sequence of user actions, first to last.\<close>

definition fire_all :: "event list \<Rightarrow> page \<Rightarrow> page" where
  "fire_all es st = foldl (\<lambda>s e. fire e s) st es"

section \<open>Confirm and execute\<close>

text \<open>
  \<open>document.querySelector(`.todo-date-selector[data-index="${index}"]`)\<close> is the first
  selector of the table with that index; \<open>dateSelector ? dateSelector.value : null\<close>.
\<close>

definition date_selector_value :: "todo_row list \<Rightarrow> nat \<Rightarrow> jsval" where
  "date_selector_value rows index =
     (case find (\<lambda>row. row_index row = index) rows of
        None \<Rightarrow> Null
      | Some row \<Rightarrow> Str (row_date row))"

text \<open>
  The loop of \<open>getSelectedTodos\<close> over the check boxes. For a checked box it reads
  \<open>processedData.todos[index]\<close>, which throws when \<open>processedData\<close> is \<open>null\<close> or has
  no \<open>todos\<close>, and is \<open>undefined\<close> when the index is past the end of the list.
\<close>

fun selected_todos :: "todo_row list \<Rightarrow> todo_row list \<Rightarrow> preview option \<Rightarrow> js_error + todo list" where
  "selected_todos rows [] pd = Inr []"
| "selected_todos rows (checkbox # rest) pd =
     (if row_checked checkbox
      then (case pd of
              None \<Rightarrow> Inl TypeError
            | Some p \<Rightarrow>
                (case todos p of
                   None \<Rightarrow> Inl TypeError
                 | Some tds \<Rightarrow>
                     (case selected_todos rows rest pd of
                        Inl err \<Rightarrow> Inl err
                      | Inr others \<Rightarrow>
                          (let index = row_index checkbox;
                               selectedDate = date_selector_value rows index
                           in if index < length tds
                              then Inr ((tds ! index)
                                          \<lparr>due_date := js_or selectedDate (due_date (tds ! index))\<rparr>
                                        # others)
                              else Inr others))))
      else selected_todos rows rest pd)"

definition getSelectedTodos :: "page \<Rightarrow> js_error + todo list" where
  "getSelectedTodos st = selected_todos (todoRows st) (todoRows st) (processedData st)"

subsection \<open>The request body\<close>

record deal_updates_data =
  dealstage :: "string option"
  hs_next_step :: "string option"
  next_steps_date :: "string option"

record future_task_data =
  create_task :: bool
  task_title :: "string option"
  due_days :: "int option"

record hubspot_payload =
  action :: string
  contact_id :: jsval
  hs_contact_name :: jsval
  deal_id :: jsval
  deal_updates :: deal_updates_data
  hs_summary :: "string list"
  hs_raw_notes :: jsval
  future_task :: future_task_data

record notion_payload =
  update_investor_prefs :: bool
  create_todos :: bool
  nt_company_name :: jsval
  nt_preferences :: "(string \<times> pref_value) list"
  nt_todos :: "todo list"

record payload =
  hubspot :: hubspot_payload
  notion :: notion_payload
  contact_name :: jsval

text \<open>
  How \<open>handleConfirmAndExecute\<close> ends before any response arrives: rejected by a
  validation (nothing is sent), the request sent with its body, or an exception caught
  while the body was built (nothing is sent).
\<close>

datatype outcome = Rejected preview_message | Dispatched payload | Failed preview_message

subsection \<open>The local values of \<open>handleConfirmAndExecute\<close>\<close>

text \<open>\<open>document.getElementById('enable-hubspot-note')?.checked ?? true\<close>, and its like.\<close>

definition enableHubspotNote :: "page \<Rightarrow> bool" where
  "enableHubspotNote st = (case enableHubspotNoteCheckbox st of None \<Rightarrow> True | Some b \<Rightarrow> b)"

definition enableInvestorPrefs :: "page \<Rightarrow> bool" where
  "enableInvestorPrefs st = (case enableInvestorPrefsCheckbox st of None \<Rightarrow> True | Some b \<Rightarrow> b)"

definition enableTodos :: "page \<Rightarrow> bool" where
  "enableTodos st = (case enableTodosCheckbox st of None \<Rightarrow> True | Some b \<Rightarrow> b)"

text \<open>
  The local \<open>hubspotAction\<close>: the checked radio button's value \<open>|| 'skip'\<close>, overridden
  by the master toggle.
\<close>

definition confirmHubspotAction :: "page \<Rightarrow> string" where
  "confirmHubspotAction st =
     (let chosen = (case hubspotActionRadio st of
                      None \<Rightarrow> ''skip''
                    | Some v \<Rightarrow> if v = [] then ''skip'' else v)
      in if \<not> enableHubspotNote st then ''skip'' else chosen)"

definition shouldUpdateInvestorPrefs :: "page \<Rightarrow> bool" where
  "shouldUpdateInvestorPrefs st = (enableInvestorPrefs st \<and> updateInvestorPrefsCheckbox st)"

definition shouldCreateTodos :: "page \<Rightarrow> bool" where
  "shouldCreateTodos st = (enableTodos st \<and> createTodosCheckbox st)"

definition dealUpdates :: "page \<Rightarrow> deal_updates_data" where
  "dealUpdates st =
     (if truthy (selectedDealId st)
      then \<lparr>dealstage = (if dealStageInput st \<noteq> [] then Some (dealStageInput st) else None),
            hs_next_step = (if dealNextStepInput st \<noteq> [] then Some (dealNextStepInput st) else None),
            next_steps_date = (if dealNextStepDateInput st \<noteq> []
                               then Some (dealNextStepDateInput st) else None)\<rparr>
      else \<lparr>dealstage = None, hs_next_step = None, next_steps_date = None\<rparr>)"

definition futureTask :: "page \<Rightarrow> future_task_data" where
  "futureTask st =
     (if createFutureTaskCheckbox st
      then \<lparr>create_task = True,
            task_title = Some (if taskTitleInput st \<noteq> [] then taskTitleInput st
                               else ''Check in with '' @ js_to_string (selectedContactName st)),
            due_days = Some (case taskDueDaysSelect st of
                               None \<Rightarrow> 90
                             | Some n \<Rightarrow> if n = 0 then 90 else n)\<rparr>
      else \<lparr>create_task = False, task_title = None, due_days = None\<rparr>)"

text \<open>The object literal \<open>payload\<close>, given \<open>processedData\<close> and \<open>todosToSend\<close>.\<close>

definition build_payload :: "page \<Rightarrow> preview \<Rightarrow> todo list \<Rightarrow> payload" where
  "build_payload st pd todosToSend =
     \<lparr>hubspot =
        \<lparr>action = confirmHubspotAction st,
         contact_id = js_or (selectedContactId st) Null,
         hs_contact_name = js_or (selectedContactName st) (Str []),
         deal_id = js_or (selectedDealId st) Null,
         deal_updates = dealUpdates st,
         hs_summary = (case summary pd of None \<Rightarrow> [] | Some bullets \<Rightarrow> bullets),
         hs_raw_notes = js_or (raw_notes pd) (Str []),
         future_task = futureTask st\<rparr>,
      notion =
        \<lparr>update_investor_prefs = (shouldUpdateInvestorPrefs st \<and> \<not> skipInvestorPrefs st),
         create_todos = shouldCreateTodos st,
         nt_company_name = js_or (case parsed_contact pd of None \<Rightarrow> Undefined
                                  | Some pc \<Rightarrow> company_name pc) (Str []),
         nt_preferences = (case preferences pd of None \<Rightarrow> [] | Some ps \<Rightarrow> ps),
         nt_todos = todosToSend\<rparr>,
      contact_name = js_or (selectedContactName st) (Str [])\<rparr>"

text \<open>
  \<open>handleConfirmAndExecute\<close>, up to the \<open>fetch\<close> of \<open>/api/confirm-and-execute\<close>:
  the four validations in the order of the source, then the body of the \<open>try\<close>.
\<close>

definition handleConfirmAndExecute :: "page \<Rightarrow> page \<times> outcome" where
  "handleConfirmAndExecute st =
     (if confirmHubspotAction st = ''skip'' \<and> \<not> shouldUpdateInvestorPrefs st
         \<and> \<not> shouldCreateTodos st
      then (showPreviewError SelectAtLeastOneAction st, Rejected SelectAtLeastOneAction)
      else if confirmHubspotAction st \<noteq> ''skip'' \<and> \<not> truthy (selectedContactId st)
              \<and> \<not> truthy (selectedDealId st)
      then (showPreviewError SelectContactOrDeal st, Rejected SelectContactOrDeal)
      else if confirmHubspotAction st = ''log_with_deal'' \<and> \<not> truthy (selectedDealId st)
      then (showPreviewError SelectDeal st, Rejected SelectDeal)
      else (case processedData st of
              None \<Rightarrow> (showPreviewError NoData st, Rejected NoData)
            | Some pd \<Rightarrow>
                (let st1 = st\<lparr>confirmBtnDisabled := True, cancelBtnDisabled := True\<rparr>
                 in case (if shouldCreateTodos st then getSelectedTodos st1 else Inr []) of
                      Inl err \<Rightarrow>
                        ((showPreviewError (ErrorText ''TypeError'') st1)
                           \<lparr>confirmBtnDisabled := False, cancelBtnDisabled := False\<rparr>,
                         Failed (ErrorText ''TypeError''))
                    | Inr todosToSend \<Rightarrow>
                        (showExecutionLoading st1,
                         Dispatched (build_payload st1 pd todosToSend)))))"

section \<open>The selection model of the specification\<close>

text \<open>
  The specification describes the state by modes. In the script the contact is
  skipped when \<open>skipHubspot\<close> is set, selected when \<open>selectedContactId\<close> is truthy (the
  test of \<open>updateExecutionSummary\<close> and of the second validation), and unresolved
  otherwise.
\<close>

datatype contact_mode = NoContact | Selected | SkipContact

definition contact_mode_of :: "page \<Rightarrow> contact_mode" where
  "contact_mode_of st =
     (if skipHubspot st then SkipContact
      else if truthy (selectedContactId st) then Selected
      else NoContact)"

text \<open>
  The investor is skipped when \<open>skipInvestorPrefs\<close> is set; otherwise
  \<open>investorPageId\<close> tells: the marker \<open>'CREATE_NEW'\<close> of \<open>handleCreateInvestor\<close>, the
  id of a page found in Notion, or nothing chosen yet.
\<close>

datatype investor_mode = Matched | CreateNew | SkipInvestor | Unresolved

definition investor_mode_of :: "page \<Rightarrow> investor_mode" where
  "investor_mode_of st =
     (if skipInvestorPrefs st then SkipInvestor
      else if investorPageId st = Str ''CREATE_NEW'' then CreateNew
      else if truthy (investorPageId st) then Matched
      else Unresolved)"

text \<open>
  The preference set of a preview is meaningful, in the words of the specification,
  when a multi-value field is non-empty or the free-text notes are non-empty after
  trimming.
\<close>

definition meaningful_entry :: "string \<times> pref_value \<Rightarrow> bool" where
  "meaningful_entry e =
     (case snd e of
        PArr xs \<Rightarrow> xs \<noteq> []
      | PStr s \<Rightarrow> fst e = ''Preference Notes'' \<and> trim s \<noteq> []
      | PNull \<Rightarrow> False)"

definition meaningful_preferences :: "preview \<Rightarrow> bool" where
  "meaningful_preferences preview =
     list_ex meaningful_entry (case preferences preview of None \<Rightarrow> [] | Some ps \<Rightarrow> ps)"

text \<open>The free-text field \<open>'Preference Notes'\<close> holds text (or nothing), not a list.\<close>

definition notes_entry_is_text :: "string \<times> pref_value \<Rightarrow> bool" where
  "notes_entry_is_text e =
     (case snd e of PArr xs \<Rightarrow> fst e \<noteq> ''Preference Notes'' | PStr s \<Rightarrow> True | PNull \<Rightarrow> True)"

definition notes_are_text :: "preview \<Rightarrow> bool" where
  "notes_are_text preview =
     list_all notes_entry_is_text (case preferences preview of None \<Rightarrow> [] | Some ps \<Rightarrow> ps)"

text \<open>
  The rows of a table rendered for \<open>n\<close> to-dos: the indices \<open>0..n-1\<close> in order,
  each selector with the four date options and one of them selected.
\<close>

definition rows_rendered :: "(nat \<Rightarrow> string) \<Rightarrow> nat \<Rightarrow> todo_row list \<Rightarrow> bool" where
  "rows_rendered clock n rows =
     (map row_index rows = [0..<n]
      \<and> list_all (\<lambda>row. row_options row = dates clock \<and> row_date row \<in> set (dates clock)) rows)"

text \<open>
  The to-dos of the checked rows, each with the date selected in its row as due date.
\<close>

definition todos_with_selected_dates :: "todo list \<Rightarrow> todo_row list \<Rightarrow> todo list" where
  "todos_with_selected_dates tds rows =
     map (\<lambda>row. (tds ! row_index row)\<lparr>due_date := Str (row_date row)\<rparr>)
         (filter row_checked rows)"

section \<open>Example data\<close>

text \<open>
  A page as the script finds it when it has loaded: the module variables at their
  initial values, the three master check boxes present and checked, the input section
  showing.
\<close>

definition loaded_page :: page where
  "loaded_page =
     \<lparr>processedData = None, selectedContactId = Null, selectedContactName = Null,
      skipHubspot = False, skipInvestorPrefs = False, investorPageId = Null,
      selectedInvestorId = Null, selectedInvestorName = Null, selectedDealId = Null,
      selectedDealData = None, hubspotAction = ''log_only'',
      submissionPageActions =
        \<lparr>enable_hubspot_note = True, enable_investor_prefs = True, enable_todos = True\<rparr>,
      hubspotActionRadio = Some ''log_only'',
      enableHubspotNoteCheckbox = Some True, enableInvestorPrefsCheckbox = Some True,
      enableTodosCheckbox = Some True,
      updateInvestorPrefsCheckbox = True, createTodosCheckbox = True,
      createFutureTaskCheckbox = False, taskTitleInput = [], taskDueDaysSelect = Some 90,
      dealNameInput = [], dealStageInput = [], dealNextStepInput = [],
      dealNextStepDateInput = [], notesInput = [], todoRows = [],
      errorMessage = None, previewErrorMessage = None, prepErrorMessage = None,
      prepSearchSectionHidden = False, prepLoadingSectionHidden = True,
      prepErrorSectionHidden = True, prepBriefSectionHidden = True,
      confirmBtnDisabled = False, cancelBtnDisabled = False,
      inputSectionHidden = False, loadingSectionHidden = True, resultsSectionHidden = True,
      executionLoadingSectionHidden = True, successSectionHidden = True,
      singleContactHidden = True, multipleContactsHidden = True, noContactHidden = True,
      investorFoundHidden = True, multipleInvestorsHidden = True,
      investorNotFoundHidden = True, hubspotActionsCardHidden = True,
      dealSelectionHidden = True, dealDetailsHidden = True\<rparr>"

definition example_clock :: "nat \<Rightarrow> string" where
  "example_clock n =
     (if n = 1 then ''2025-03-02'' else if n = 7 then ''2025-03-08''
      else if n = 30 then ''2025-03-31'' else ''2025-05-30'')"

definition ann :: contact where
  "ann = \<lparr>c_id = Str ''101'', firstname = Str ''Ann'', lastname = Str ''Lee'',
          c_email = Str ''ann@acme.example'', company = Str ''Acme''\<rparr>"

definition bob :: contact where
  "bob = \<lparr>c_id = Str ''102'', firstname = Str ''Bob'', lastname = Str ''Ray'',
          c_email = Str ''bob@acme.example'', company = Str ''Acme''\<rparr>"

definition acme_deal :: deal where
  "acme_deal = \<lparr>d_id = Str ''9001'', d_name = Str ''Acme round'', amount = Str ''500000'',
                stage = Str ''qualifiedtobuy'', next_step = Str ''Send teaser'',
                next_step_date = Str ''2025-03-15''\<rparr>"

definition example_todos :: "todo list" where
  "example_todos =
     [\<lparr>task_name = Str ''Send teaser'', due_date = Str ''2025-03-05'', t_next_step = Str ''email''\<rparr>,
      \<lparr>task_name = Str ''Share data room'', due_date = Null, t_next_step = Str ''upload''\<rparr>,
      \<lparr>task_name = Str ''Book follow-up'', due_date = Str ''next week'', t_next_step = Null\<rparr>]"

text \<open>
  A preview with the given contact matches, meaningful preferences, no investor found
  in Notion and three to-dos.
\<close>

definition example_preview :: "contact list \<Rightarrow> preview" where
  "example_preview matches =
     \<lparr>raw_notes = Str ''Call with Acme'', summary = Some [''Discussed the round''],
      parsed_contact = Some \<lparr>person_name = Str ''Ann Lee'', pc_email = Str ''ann@acme.example'',
                             company_name = Str ''Acme''\<rparr>,
      parsed_deal = None, hubspot_contacts = Some matches, hubspot_deals = Some [],
      deal_status = Str ''none'',
      preferences = Some [(''Sectors'', PArr [''Software'']), (''Preference Notes'', PStr [])],
      notion_investor = Some \<lparr>found = False, page_id = Null, ni_name = Null\<rparr>,
      todos = Some example_todos\<rparr>"

text \<open>
  The same preview with nothing in its preference set: an empty list, and notes that
  are a space and a no-break space.
\<close>

definition empty_prefs_preview :: preview where
  "empty_prefs_preview =
     (example_preview [ann])
       \<lparr>preferences := Some [(''Sectors'', PArr []), (''Preference Notes'', PStr [CHR '' '', CHR 0xA0])],
        notion_investor := Some \<lparr>found = True, page_id = Str ''page-7'', ni_name = Str ''Acme''\<rparr>\<rparr>"

text \<open>The preview page after notes were processed with the given contact matches.\<close>

definition previewed :: "contact list \<Rightarrow> page" where
  "previewed matches =
     handleProcessNotes example_clock (Inr (example_preview matches))
       (loaded_page\<lparr>notesInput := ''Call with Acme''\<rparr>)"

text \<open>
  Two matches; the user picks Ann, chooses to log with a deal and picks the deal, then
  sets the contact drop-down back to its placeholder.
\<close>

definition deal_without_contact :: page where
  "deal_without_contact =
     fire_all [ContactSelected ''101'' ''Ann Lee - ann@acme.example (Acme)'',
               HubSpotActionChosen ''log_with_deal'',
               DealSelected ''9001'' (Some acme_deal),
               ContactSelected [] ''Select a contact...'']
       (previewed [ann, bob])"

text \<open>
  Two matches; the user picks Ann and then sets the contact drop-down back to its
  placeholder: the HubSpot actions card stays open with no contact selected.
\<close>

definition contact_deselected :: page where
  "contact_deselected =
     fire_all [ContactSelected ''101'' ''Ann Lee - ann@acme.example (Acme)'',
               ContactSelected [] ''Select a contact...'']
       (previewed [ann, bob])"

text \<open>One match; the user chooses to log with a deal and picks the deal.\<close>

definition deal_chosen :: page where
  "deal_chosen =
     fire_all [HubSpotActionChosen ''log_with_deal'', DealSelected ''9001'' (Some acme_deal)]
       (previewed [ann])"

text \<open>What was sent, if anything.\<close>

fun sent :: "outcome \<Rightarrow> payload option" where
  "sent (Dispatched body) = Some body"
| "sent (Rejected message) = None"
| "sent (Failed message) = None"

text \<open>One match; the user then switches everything off on the preview page.\<close>

definition all_skipped :: page where
  "all_skipped =
     fire_all [HubSpotActionChosen ''skip'', InvestorPrefsToggled False, TodosToggled False]
       (previewed [ann])"

text \<open>One match; the master toggles for HubSpot and for the to-dos are switched off.\<close>

definition masters_off :: page where
  "masters_off =
     fire_all [MasterHubspotToggled False, MasterTodosToggled False] (previewed [ann])"

text \<open>One match; the master toggle for the investor preferences is switched off.\<close>

definition investor_master_off :: page where
  "investor_master_off = fire (MasterInvestorPrefsToggled False) (previewed [ann])"

text \<open>The page when the preview with the single match Ann has just arrived.\<close>

definition notes_received :: page where
  "notes_received =
     loaded_page\<lparr>notesInput := ''Call with Acme'', processedData := Some (example_preview [ann])\<rparr>"

text \<open>
  That preview rendered; the user unchecks the first to-do and picks the third date
  option ("30 days") for the second.
\<close>

definition todos_edited :: page where
  "todos_edited =
     fire_all [TodoToggled 0 False, TodoDateChosen 1 2]
       (fst (displayPreview example_clock (example_preview [ann]) notes_received))"

text \<open>That preview rendered, with one more checked row whose index is 7.\<close>

definition stale_row :: page where
  "stale_row =
     (let st = fst (displayPreview example_clock (example_preview [ann]) notes_received)
      in st\<lparr>todoRows := todoRows st @ [(new_todo_row example_clock 7)\<lparr>row_date := ''2025-03-08''\<rparr>]\<rparr>)"

text \<open>
  Three call preparations in a row: Ann, a contact without an email, and Ann again.
\<close>

definition three_searches :: "(brief_contact \<times> string) list" where
  "three_searches =
     [(\<lparr>bc_id = Str ''101'', bc_name = Str ''Ann Lee'', bc_email = Str ''ann@acme.example'',
        bc_company = Str ''Acme''\<rparr>, ''ann''),
      (\<lparr>bc_id = Str ''102'', bc_name = Str ''Bob Ray'', bc_email = Null,
        bc_company = Undefined\<rparr>, ''bob ray''),
      (\<lparr>bc_id = Str ''101'', bc_name = Str ''Ann Lee'', bc_email = Str ''ann@acme.example'',
        bc_company = Str ''Acme''\<rparr>, ''ann@acme.example'')]"

text \<open>
  One match; the user chooses "Skip HubSpot entirely", clicks the card that skips the
  investor preferences, and unticks the to-dos.
\<close>

definition skipped_by_flag :: page where
  "skipped_by_flag =
     fire_all [HubSpotActionChosen ''skip'', InvestorOptionClicked ''skip-investor'',
               TodosToggled False]
       (previewed [ann])"

text \<open>
  The preview with the empty preference set is processed and rendered; the user then
  ticks "Update investor preferences" again.
\<close>

definition empty_prefs_reenabled :: page where
  "empty_prefs_reenabled =
     fire (InvestorPrefsToggled True)
       (handleProcessNotes example_clock (Inr empty_prefs_preview)
          (loaded_page\<lparr>notesInput := ''Call with Acme''\<rparr>))"
section \<open>Properties of the recent-contacts cache\<close>

lemma findIndex_Some_iff:
  "findIndex p xs = Some i \<longleftrightarrow> i < length xs \<and> p (xs ! i) \<and> (\<forall>j<i. \<not> p (xs ! j))"
proof (induction xs arbitrary: i)
  case Nil
  then show ?case by simp
next
  case (Cons x xs)
  show ?case
  proof (cases "p x")
    case True
    then show ?thesis by (cases i) auto
  next
    case False
    show ?thesis
    proof (cases i)
      case 0
      with False show ?thesis by simp
    next
      case (Suc k)
      have "(\<forall>j<Suc k. \<not> p ((x # xs) ! j)) \<longleftrightarrow> (\<forall>j<k. \<not> p (xs ! j))"
        using False by (auto simp: less_Suc_eq_0_disj)
      with False Suc Cons.IH [of k] show ?thesis by auto
    qed
  qed
qed

lemma kept_entries_differ:
  assumes a: "(i, x) \<in> set (filter (\<lambda>(index, item). findIndex (same_contact item) self = Some index) (enumerate 0 self))"
    and b: "(j, y) \<in> set (filter (\<lambda>(index, item). findIndex (same_contact item) self = Some index) (enumerate 0 self))"
    and lt: "i < j"
  shows "rc_email x \<noteq> rc_email y \<and> rc_id x \<noteq> rc_id y"
proof -
  from a have xi: "i < length self" "x = self ! i"
    by (auto simp: in_set_enumerate_eq)
  from b have fj: "findIndex (same_contact y) self = Some j"
    by auto
  then have "\<not> same_contact y (self ! i)"
    using lt by (simp add: findIndex_Some_iff)
  with xi show ?thesis
    by (auto simp: same_contact_def)
qed

lemma remove_duplicates_distinct_on:
  assumes sep: "\<And>x y. f x = f y \<Longrightarrow> rc_email x = rc_email y \<or> rc_id x = rc_id y"
  shows "distinct (map f (remove_duplicates self))"
proof -
  let ?kept = "filter (\<lambda>(index, item). findIndex (same_contact item) self = Some index) (enumerate 0 self)"
  have d: "distinct ?kept"
    by (simp add: distinct_enumerate)
  have inj: "inj_on (f \<circ> snd) (set ?kept)"
  proof (rule inj_onI)
    fix p q
    assume p: "p \<in> set ?kept" and q: "q \<in> set ?kept" and e: "(f \<circ> snd) p = (f \<circ> snd) q"
    obtain i x where pe: "p = (i, x)" by (cases p)
    obtain j y where qe: "q = (j, y)" by (cases q)
    from e pe qe have fe: "f x = f y" by simp
    have "i = j"
    proof (rule ccontr)
      assume "i \<noteq> j"
      then consider "i < j" | "j < i" by linarith
      then show False
      proof cases
        case 1
        from kept_entries_differ [OF p [unfolded pe] q [unfolded qe] 1] sep [OF fe]
        show False by simp
      next
        case 2
        from kept_entries_differ [OF q [unfolded qe] p [unfolded pe] 2] sep [OF fe [symmetric]]
        show False by simp
      qed
    qed
    moreover from p pe have "x = self ! i" by (auto simp: in_set_enumerate_eq)
    moreover from q qe have "y = self ! j" by (auto simp: in_set_enumerate_eq)
    ultimately show "p = q" using pe qe by simp
  qed
  have "distinct (map (f \<circ> snd) ?kept)"
    using d inj by (simp add: distinct_map)
  then show ?thesis
    by (simp add: remove_duplicates_def)
qed

lemma remove_duplicates_Cons:
  "\<exists>rest. remove_duplicates (c # lst) = c # rest"
  by (simp add: remove_duplicates_def same_contact_def)

lemma savePrepRecentContact_inv:
  "length (savePrepRecentContact c lst) \<le> 6
   \<and> savePrepRecentContact c lst \<noteq> []
   \<and> hd (savePrepRecentContact c lst) = c
   \<and> distinct (map rc_email (savePrepRecentContact c lst))
   \<and> distinct (map rc_id (savePrepRecentContact c lst))"
proof -
  obtain rest where r: "remove_duplicates (c # lst) = c # rest"
    using remove_duplicates_Cons by blast
  have e: "distinct (map rc_email (remove_duplicates (c # lst)))"
    by (rule remove_duplicates_distinct_on) simp
  have i: "distinct (map rc_id (remove_duplicates (c # lst)))"
    by (rule remove_duplicates_distinct_on) simp
  have t: "\<And>f. distinct (map f (remove_duplicates (c # lst)))
             \<Longrightarrow> distinct (map f (savePrepRecentContact c lst))"
    by (simp add: savePrepRecentContact_def take_map [symmetric] distinct_take)
  have "length (savePrepRecentContact c lst) \<le> 6"
    by (simp add: savePrepRecentContact_def)
  moreover have "savePrepRecentContact c lst \<noteq> [] \<and> hd (savePrepRecentContact c lst) = c"
    by (simp add: savePrepRecentContact_def r)
  ultimately show ?thesis
    using t [OF e] t [OF i] by simp
qed

lemma savePrepRecentContact_subset:
  "set (savePrepRecentContact c lst) \<subseteq> insert c (set lst)"
proof -
  have "set (remove_duplicates (c # lst)) \<subseteq> snd ` set (enumerate 0 (c # lst))"
    by (auto simp: remove_duplicates_def)
  also have "\<dots> = set (c # lst)"
    by (metis list.set_map map_snd_enumerate)
  finally have "set (remove_duplicates (c # lst)) \<subseteq> insert c (set lst)"
    by simp
  with set_take_subset [of 6 "remove_duplicates (c # lst)"] show ?thesis
    by (auto simp: savePrepRecentContact_def)
qed

lemma save_all_subset: "set (save_all lst contacts) \<subseteq> set lst \<union> set contacts"
proof (induction contacts arbitrary: lst)
  case Nil
  then show ?case by (simp add: save_all_def)
next
  case (Cons c cs)
  have "save_all lst (c # cs) = save_all (savePrepRecentContact c lst) cs"
    by (simp add: save_all_def)
  with Cons.IH [of "savePrepRecentContact c lst"] savePrepRecentContact_subset [of c lst]
  show ?case by auto
qed

lemma dedup_key_stored: "email_stored c \<Longrightarrow> dedup_key c = rc_email c"
  by (cases "rc_email c") (simp_all add: email_stored_def dedup_key_def)

lemma recent_entry_email_stored: "email_stored (recent_entry call)"
  by (cases "bc_email (fst call)") (simp_all add: email_stored_def recent_entry_def js_or_def)

lemma stored_keys_distinct:
  assumes "list_all email_stored lst" and "list_all email_stored contacts"
    and "distinct (map rc_email (save_all lst contacts))"
  shows "distinct (map dedup_key (save_all lst contacts))"
proof -
  have "\<And>x. x \<in> set (save_all lst contacts) \<Longrightarrow> email_stored x"
    using save_all_subset [of lst contacts] assms(1,2) by (auto simp: list_all_iff)
  then have eq: "map dedup_key (save_all lst contacts) = map rc_email (save_all lst contacts)"
    by (intro map_cong refl) (rule dedup_key_stored)
  show ?thesis unfolding eq by (rule assms(3))
qed

text \<open>
  C8. After every upsert into the recent-contacts cache, whatever the cache held
  before and however many upserts preceded it, the cache has at most 6 entries, the
  contact just upserted is its first entry, and no two entries share an email or an id.
  No two entries share the deduplication key \<open>email ?? id\<close> either: in a cache whose
  stored emails are strings and that receives such entries, and so in every cache that
  \<open>searchContactForPrep\<close> fills, starting from the empty one.
\<close>

theorem C8_recent_contacts_cache:
  "length (save_all lst (contacts @ [c])) \<le> 6
   \<and> save_all lst (contacts @ [c]) \<noteq> []
   \<and> hd (save_all lst (contacts @ [c])) = c
   \<and> distinct (map rc_email (save_all lst (contacts @ [c])))
   \<and> distinct (map rc_id (save_all lst (contacts @ [c])))
   \<and> (list_all email_stored lst \<and> list_all email_stored (contacts @ [c]) \<longrightarrow>
        distinct (map dedup_key (save_all lst (contacts @ [c]))))
   \<and> length (save_all [] (map recent_entry (calls @ [call]))) \<le> 6
   \<and> hd (save_all [] (map recent_entry (calls @ [call]))) = recent_entry call
   \<and> distinct (map dedup_key (save_all [] (map recent_entry (calls @ [call]))))"
proof -
  have general: "\<And>lst contacts c.
        length (save_all lst (contacts @ [c])) \<le> 6
      \<and> save_all lst (contacts @ [c]) \<noteq> []
      \<and> hd (save_all lst (contacts @ [c])) = c
      \<and> distinct (map rc_email (save_all lst (contacts @ [c])))
      \<and> distinct (map rc_id (save_all lst (contacts @ [c])))"
  proof -
    fix lst contacts c
    show "length (save_all lst (contacts @ [c])) \<le> 6
      \<and> save_all lst (contacts @ [c]) \<noteq> []
      \<and> hd (save_all lst (contacts @ [c])) = c
      \<and> distinct (map rc_email (save_all lst (contacts @ [c])))
      \<and> distinct (map rc_id (save_all lst (contacts @ [c])))"
      using savePrepRecentContact_inv [of c "foldl (\<lambda>l c. savePrepRecentContact c l) lst contacts"]
      by (simp add: save_all_def)
  qed
  have keys: "list_all email_stored lst \<and> list_all email_stored (contacts @ [c]) \<longrightarrow>
        distinct (map dedup_key (save_all lst (contacts @ [c])))"
    using general [of lst contacts c] stored_keys_distinct [of lst "contacts @ [c]"] by blast
  have built: "list_all email_stored (map recent_entry (calls @ [call]))"
    by (simp add: list_all_iff recent_entry_email_stored)
  have m: "map recent_entry (calls @ [call]) = map recent_entry calls @ [recent_entry call]"
    by simp
  have caller: "length (save_all [] (map recent_entry (calls @ [call]))) \<le> 6
   \<and> hd (save_all [] (map recent_entry (calls @ [call]))) = recent_entry call
   \<and> distinct (map dedup_key (save_all [] (map recent_entry (calls @ [call]))))"
    using general [of "[]" "map recent_entry calls" "recent_entry call"]
      stored_keys_distinct [of "[]" "map recent_entry (calls @ [call])"] built
    by (simp only: m) simp
  from general [of lst contacts c] keys caller show ?thesis by blast
qed

text \<open>
  C8 on three searches from an empty cache: a contact with an email, one without an
  email, and the first one again.
\<close>

theorem C8_witness:
  "list_all email_stored [] \<and> list_all email_stored (map recent_entry three_searches)
   \<and> map dedup_key (save_all [] (map recent_entry three_searches))
     = [Str ''ann@acme.example'', Str []]
   \<and> distinct (map dedup_key (save_all [] (map recent_entry three_searches)))"
proof -
  have a: "list_all email_stored ([]::recent_contact list)" by simp
  have b: "list_all email_stored (map recent_entry three_searches)" by code_simp
  have v: "map dedup_key (save_all [] (map recent_entry three_searches))
           = [Str ''ann@acme.example'', Str []]" by code_simp
  have s: "map recent_entry three_searches
           = map recent_entry (butlast three_searches) @ [recent_entry (last three_searches)]"
    by code_simp
  have d: "distinct (map dedup_key (save_all [] (map recent_entry three_searches)))"
    using C8_recent_contacts_cache [of "[]" "map recent_entry (butlast three_searches)"
      "recent_entry (last three_searches)"] a b s
    by simp
  from a b v d show ?thesis by simp
qed

section \<open>Properties of the selection handlers\<close>

text \<open>
  C9 (as amended). In the multiple-investors drop-down, \<open>handleInvestorSelection\<close>
  stores the chosen option's value as the investor page id and sets the skip flag
  exactly when that value is empty. On the placeholder the page id becomes the empty
  string (not \<open>null\<close>), the skip flag becomes true and the investor mode is skip; on
  any other option the page id is the option's value and the skip flag is cleared.
\<close>

theorem C9_investor_selection:
  "investorPageId (handleInvestorSelection v st) = Str v
   \<and> skipInvestorPrefs (handleInvestorSelection v st) = (v = [])
   \<and> investor_mode_of (handleInvestorSelection [] st) = SkipInvestor"
  by (simp add: handleInvestorSelection_def investor_mode_of_def Let_def)

text \<open>
  C9 as stated fails: after the placeholder is chosen the investor page id is the
  empty string, which is not \<open>null\<close>.
\<close>

theorem C9_placeholder_counterexample:
  "investorPageId (fire (InvestorSelected []) (previewed [ann, bob])) = Str []
   \<and> investorPageId (fire (InvestorSelected []) (previewed [ann, bob])) \<noteq> Null"
  by code_simp

text \<open>
  C3. On cancel every selection field should be back at its default. Here the user
  had chosen to log with a deal and picked the deal: after \<open>handleCancel\<close> the deal id,
  the deal data and the hubspot action are still those choices, while the contact id
  is reset; \<open>handleNewNotes\<close> on the same state does reset the deal id.
\<close>

theorem C3_cancel_keeps_deal_selection:
  "selectedDealId (handleCancel deal_chosen) = Str ''9001''
   \<and> selectedDealData (handleCancel deal_chosen) = Some acme_deal
   \<and> hubspotAction (handleCancel deal_chosen) = ''log_with_deal''
   \<and> selectedContactId (handleCancel deal_chosen) = Null
   \<and> selectedDealId (handleNewNotes deal_chosen) = Null"
  by code_simp

text \<open>
  C2 (as amended). Choosing the action \<open>'log_with_deal'\<close> is accepted in every state,
  also when no contact is selected: the hubspot action becomes \<open>'log_with_deal'\<close> and
  the skip flag is cleared, while the contact and the deal selection stay as they
  were. The guard comes at confirm time: with the HubSpot master toggle on and no
  deal id selected, confirm-and-execute rejects the attempt.
\<close>

theorem C2_log_with_deal_is_accepted:
  "hubspotAction (fire (HubSpotActionChosen ''log_with_deal'') st) = ''log_with_deal''
   \<and> hubspotActionRadio (fire (HubSpotActionChosen ''log_with_deal'') st) = Some ''log_with_deal''
   \<and> \<not> skipHubspot (fire (HubSpotActionChosen ''log_with_deal'') st)
   \<and> selectedContactId (fire (HubSpotActionChosen ''log_with_deal'') st) = selectedContactId st
   \<and> selectedContactName (fire (HubSpotActionChosen ''log_with_deal'') st) = selectedContactName st
   \<and> selectedDealId (fire (HubSpotActionChosen ''log_with_deal'') st) = selectedDealId st
   \<and> selectedDealData (fire (HubSpotActionChosen ''log_with_deal'') st) = selectedDealData st
   \<and> (enableHubspotNote st \<and> \<not> truthy (selectedDealId st) \<longrightarrow>
        snd (handleConfirmAndExecute (fire (HubSpotActionChosen ''log_with_deal'') st))
        = Rejected (if truthy (selectedContactId st) then SelectDeal else SelectContactOrDeal))"
  by (simp add: handleHubSpotActionChange_def handleConfirmAndExecute_def
      confirmHubspotAction_def enableHubspotNote_def showPreviewError_def Let_def)

text \<open>
  The amended C2 at a state with no contact selected and no deal: the attempt is
  rejected at confirm time.
\<close>

theorem C2_witness:
  "enableHubspotNote contact_deselected \<and> \<not> truthy (selectedDealId contact_deselected)
   \<and> snd (handleConfirmAndExecute (fire (HubSpotActionChosen ''log_with_deal'') contact_deselected))
     = Rejected SelectContactOrDeal"
proof -
  have a: "enableHubspotNote contact_deselected" by code_simp
  have b: "\<not> truthy (selectedDealId contact_deselected)" by code_simp
  have c: "\<not> truthy (selectedContactId contact_deselected)" by code_simp
  from C2_log_with_deal_is_accepted [of contact_deselected] a b c show ?thesis by simp
qed

text \<open>
  C2 as stated fails: with the actions card open and no contact selected, choosing
  \<open>'log_with_deal'\<close> changes the hubspot action from \<open>'log_only'\<close> to \<open>'log_with_deal'\<close>.
\<close>

theorem C2_counterexample:
  "contact_mode_of contact_deselected \<noteq> Selected
   \<and> hubspotActionsCardHidden contact_deselected = False
   \<and> hubspotAction contact_deselected = ''log_only''
   \<and> hubspotAction (fire (HubSpotActionChosen ''log_with_deal'') contact_deselected) = ''log_with_deal''"
  by code_simp

section \<open>Properties of confirm-and-execute\<close>

lemma sent_Some_iff: "sent out = Some body \<longleftrightarrow> out = Dispatched body"
  by (cases out) auto

lemma dispatched_payload:
  assumes "sent (snd (handleConfirmAndExecute st)) = Some body"
  shows "\<exists>pd tds. body = build_payload (st\<lparr>confirmBtnDisabled := True, cancelBtnDisabled := True\<rparr>) pd tds
          \<and> processedData st = Some pd
          \<and> (if shouldCreateTodos st then getSelectedTodos st = Inr tds else tds = [])"
  using assms
  by (auto simp: handleConfirmAndExecute_def Let_def getSelectedTodos_def sent_Some_iff
      split: if_splits option.splits sum.splits)

text \<open>
  C1 (as amended). When the HubSpot action is not \<open>'skip'\<close>, no contact id is selected
  and no deal id is selected either, the pre-flight validation fails with the "select a
  HubSpot contact or deal" message and nothing is sent. A selected deal id lets the
  attempt pass this validation.
\<close>

theorem C1_no_contact_no_deal_blocks:
  assumes "confirmHubspotAction st \<noteq> ''skip''"
    and "\<not> truthy (selectedContactId st)"
    and "\<not> truthy (selectedDealId st)"
  shows "handleConfirmAndExecute st
         = (showPreviewError SelectContactOrDeal st, Rejected SelectContactOrDeal)"
  using assms by (simp add: handleConfirmAndExecute_def)

text \<open>The amended C1 on the preview of two matches, before any choice.\<close>

theorem C1_witness:
  "confirmHubspotAction (previewed [ann, bob]) \<noteq> ''skip''
   \<and> \<not> truthy (selectedContactId (previewed [ann, bob]))
   \<and> \<not> truthy (selectedDealId (previewed [ann, bob]))
   \<and> snd (handleConfirmAndExecute (previewed [ann, bob])) = Rejected SelectContactOrDeal"
proof -
  have a: "confirmHubspotAction (previewed [ann, bob]) \<noteq> ''skip''" by code_simp
  have b: "\<not> truthy (selectedContactId (previewed [ann, bob]))" by code_simp
  have c: "\<not> truthy (selectedDealId (previewed [ann, bob]))" by code_simp
  from C1_no_contact_no_deal_blocks [OF a b c] a b c show ?thesis by simp
qed

text \<open>
  C1 as stated fails when a deal id is present: no contact is resolved, no skip is
  recorded, the action is not \<open>'skip'\<close>, and the request is sent with a \<open>null\<close> contact
  id.
\<close>

theorem C1_counterexample:
  "contact_mode_of deal_without_contact = NoContact
   \<and> confirmHubspotAction deal_without_contact \<noteq> ''skip''
   \<and> sent (snd (handleConfirmAndExecute deal_without_contact)) \<noteq> None
   \<and> map_option (contact_id \<circ> hubspot) (sent (snd (handleConfirmAndExecute deal_without_contact)))
     = Some Null"
  by code_simp

text \<open>
  What the first validation does cover: when the hubspot action is \<open>'skip'\<close> and both
  the investor preferences and the to-dos are off by their check boxes or master
  toggles, confirm-and-execute shows the "select at least one action" message, sends
  nothing, and leaves the state as it was but for the error banner, whatever the
  preview holds.
\<close>

lemma first_validation_rejects:
  assumes "confirmHubspotAction st = ''skip''"
    and "\<not> shouldUpdateInvestorPrefs st"
    and "\<not> shouldCreateTodos st"
  shows "handleConfirmAndExecute st
         = (showPreviewError SelectAtLeastOneAction st, Rejected SelectAtLeastOneAction)
         \<and> sent (snd (handleConfirmAndExecute st)) = None
         \<and> (fst (handleConfirmAndExecute st))\<lparr>previewErrorMessage := previewErrorMessage st\<rparr> = st"
  using assms by (simp add: handleConfirmAndExecute_def showPreviewError_def)

lemma first_validation_rejects_all_unticked:
  "snd (handleConfirmAndExecute all_skipped) = Rejected SelectAtLeastOneAction"
proof -
  have a: "confirmHubspotAction all_skipped = ''skip''" by code_simp
  have b: "\<not> shouldUpdateInvestorPrefs all_skipped" by code_simp
  have c: "\<not> shouldCreateTodos all_skipped" by code_simp
  from first_validation_rejects [OF a b c] show ?thesis by simp
qed

text \<open>
  C6. With the hubspot action \<open>'skip'\<close>, the investor preferences disabled and the
  to-dos disabled, confirm-and-execute should fail the first validation. Here the
  investor preferences are disabled by the skip card, which sets \<open>skipInvestorPrefs\<close>
  and leaves the check box ticked: the first validation tests the check box only, the
  attempt passes, and a request is sent whose three parts are all off.
\<close>

theorem C6_skip_flag_passes_the_validation:
  "confirmHubspotAction skipped_by_flag = ''skip''
   \<and> investor_mode_of skipped_by_flag = SkipInvestor
   \<and> updateInvestorPrefsCheckbox skipped_by_flag
   \<and> \<not> shouldCreateTodos skipped_by_flag
   \<and> sent (snd (handleConfirmAndExecute skipped_by_flag)) \<noteq> None
   \<and> map_option (\<lambda>body. (action (hubspot body), update_investor_prefs (notion body),
                           create_todos (notion body), nt_todos (notion body)))
        (sent (snd (handleConfirmAndExecute skipped_by_flag)))
     = Some (''skip'', False, False, [])"
  by code_simp

text \<open>
  C7. In every request body that confirm-and-execute sends, a master toggle that is
  off forces its action off: with the HubSpot master toggle off the action is
  \<open>'skip'\<close>; with the investor-preferences master toggle off \<open>update_investor_prefs\<close>
  is false; with the to-dos master toggle off \<open>create_todos\<close> is false and the list of
  to-dos is empty, whatever the finer selections are.
\<close>

theorem C7_master_toggle_overrides:
  assumes "sent (snd (handleConfirmAndExecute st)) = Some body"
  shows "(enableHubspotNoteCheckbox st = Some False \<longrightarrow> action (hubspot body) = ''skip'')
       \<and> (enableInvestorPrefsCheckbox st = Some False \<longrightarrow> \<not> update_investor_prefs (notion body))
       \<and> (enableTodosCheckbox st = Some False \<longrightarrow>
            \<not> create_todos (notion body) \<and> nt_todos (notion body) = [])"
proof -
  from dispatched_payload [OF assms] obtain pd tds where
    b: "body = build_payload (st\<lparr>confirmBtnDisabled := True, cancelBtnDisabled := True\<rparr>) pd tds"
    and t: "if shouldCreateTodos st then getSelectedTodos st = Inr tds else tds = []"
    by blast
  have h: "enableHubspotNoteCheckbox st = Some False \<longrightarrow> action (hubspot body) = ''skip''"
    by (simp add: b build_payload_def confirmHubspotAction_def enableHubspotNote_def)
  have i: "enableInvestorPrefsCheckbox st = Some False \<longrightarrow> \<not> update_investor_prefs (notion body)"
    by (simp add: b build_payload_def shouldUpdateInvestorPrefs_def enableInvestorPrefs_def)
  have d: "enableTodosCheckbox st = Some False \<longrightarrow> \<not> shouldCreateTodos st"
    by (simp add: shouldCreateTodos_def enableTodos_def)
  have c: "enableTodosCheckbox st = Some False \<longrightarrow>
            \<not> create_todos (notion body) \<and> nt_todos (notion body) = []"
    using d t by (auto simp: b build_payload_def shouldCreateTodos_def enableTodos_def)
  from h i c show ?thesis by blast
qed

text \<open>
  C7 on two requests that are sent: one with the HubSpot and to-dos master toggles
  off, one with the investor-preferences master toggle off.
\<close>

theorem C7_witness:
  "enableHubspotNoteCheckbox masters_off = Some False
   \<and> enableTodosCheckbox masters_off = Some False
   \<and> map_option (action \<circ> hubspot) (sent (snd (handleConfirmAndExecute masters_off))) = Some ''skip''
   \<and> map_option (nt_todos \<circ> notion) (sent (snd (handleConfirmAndExecute masters_off))) = Some []
   \<and> enableInvestorPrefsCheckbox investor_master_off = Some False
   \<and> map_option (update_investor_prefs \<circ> notion)
        (sent (snd (handleConfirmAndExecute investor_master_off))) = Some False"
proof -
  have "sent (snd (handleConfirmAndExecute masters_off)) \<noteq> None" by code_simp
  then obtain body1 where r1: "sent (snd (handleConfirmAndExecute masters_off)) = Some body1"
    by blast
  have "sent (snd (handleConfirmAndExecute investor_master_off)) \<noteq> None" by code_simp
  then obtain body2 where r2: "sent (snd (handleConfirmAndExecute investor_master_off)) = Some body2"
    by blast
  have a: "enableHubspotNoteCheckbox masters_off = Some False" by code_simp
  have b: "enableTodosCheckbox masters_off = Some False" by code_simp
  have c: "enableInvestorPrefsCheckbox investor_master_off = Some False" by code_simp
  from C7_master_toggle_overrides [OF r1] C7_master_toggle_overrides [OF r2] a b c r1 r2
  show ?thesis by simp
qed

section \<open>Properties of the rendered preview\<close>

lemma showHubSpotActionsCard_contact:
  "selectedContactId (showHubSpotActionsCard st) = selectedContactId st"
  "skipHubspot st = False \<Longrightarrow> skipHubspot (showHubSpotActionsCard st) = False"
  "investorPageId (showHubSpotActionsCard st) = investorPageId st"
  "skipInvestorPrefs (showHubSpotActionsCard st) = skipInvestorPrefs st"
  by (simp_all add: showHubSpotActionsCard_def updateTaskTitle_def)

lemma displayContactSection_single:
  assumes "hubspot_contacts p = Some [c]"
  shows "selectedContactId (displayContactSection p st) = c_id c"
    and "skipHubspot st = False \<Longrightarrow> skipHubspot (displayContactSection p st) = False"
  using assms
  by (simp_all add: displayContactSection_def showHubSpotActionsCard_contact Let_def)

lemma displayContactSection_investor:
  "investorPageId (displayContactSection p st) = investorPageId st"
  "skipInvestorPrefs (displayContactSection p st) = skipInvestorPrefs st"
  by (simp_all add: displayContactSection_def showHubSpotActionsCard_contact Let_def)

lemma displayParsedDeals_keeps:
  "selectedContactId (displayParsedDeals clock p st) = selectedContactId st"
  "skipHubspot (displayParsedDeals clock p st) = skipHubspot st"
  "investorPageId (displayParsedDeals clock p st) = investorPageId st"
  "skipInvestorPrefs (displayParsedDeals clock p st) = skipInvestorPrefs st"
  "processedData (displayParsedDeals clock p st) = processedData st"
  by (simp_all add: displayParsedDeals_def showDealCreationMode_def Let_def)

lemma displayPreferences_keeps:
  assumes "displayPreferences p st = Inr st'"
  shows "selectedContactId st' = selectedContactId st"
    and "skipHubspot st' = skipHubspot st"
    and "processedData st' = processedData st"
  using assms
  by (auto simp: displayPreferences_def Let_def split: sum.splits if_splits option.splits)

lemma render_tail_keeps:
  "selectedContactId (showResults (displayTodos clock tds st)) = selectedContactId st"
  "skipHubspot (showResults (displayTodos clock tds st)) = skipHubspot st"
  "investorPageId (showResults (displayTodos clock tds st)) = investorPageId st"
  "skipInvestorPrefs (showResults (displayTodos clock tds st)) = skipInvestorPrefs st"
  "updateInvestorPrefsCheckbox (showResults (displayTodos clock tds st)) = updateInvestorPrefsCheckbox st"
  "investorFoundHidden (showResults (displayTodos clock tds st)) = investorFoundHidden st"
  "multipleInvestorsHidden (showResults (displayTodos clock tds st)) = multipleInvestorsHidden st"
  "investorNotFoundHidden (showResults (displayTodos clock tds st)) = investorNotFoundHidden st"
  "processedData (showResults (displayTodos clock tds st)) = processedData st"
  "todoRows (showResults (displayTodos clock tds st)) = map (new_todo_row clock) [0..<length tds]"
  by (simp_all add: showResults_def displayTodos_def)

lemma resetSelections_fields:
  "skipHubspot (resetSelections st) = False"
  "skipInvestorPrefs (resetSelections st) = False"
  "investorPageId (resetSelections st) = Null"
  "processedData (resetSelections st) = processedData st"
  by (simp_all add: resetSelections_def)

text \<open>
  C4. For every preview whose \<open>hubspot_contacts\<close> holds exactly one contact, after
  \<open>displayPreview\<close> the selected contact id is that contact's id and no skip is
  recorded, so that the contact mode is "selected" (the id of a contact is a non-empty
  string). This also holds for a render that stops at \<open>displayPreferences\<close>.
\<close>

theorem C4_single_match_is_selected:
  assumes "hubspot_contacts p = Some [c]"
  shows "selectedContactId (fst (displayPreview clock p st)) = c_id c
       \<and> \<not> skipHubspot (fst (displayPreview clock p st))
       \<and> (truthy (c_id c) \<longrightarrow> contact_mode_of (fst (displayPreview clock p st)) = Selected)"
proof -
  let ?st2 = "displayContactSection p (resetSelections st)"
  let ?st3 = "displayParsedDeals clock p ?st2"
  have c3: "selectedContactId ?st3 = c_id c" "skipHubspot ?st3 = False"
    using displayContactSection_single [OF assms, of "resetSelections st"]
    by (simp_all add: displayParsedDeals_keeps resetSelections_fields)
  have "selectedContactId (fst (displayPreview clock p st)) = c_id c
        \<and> skipHubspot (fst (displayPreview clock p st)) = False"
  proof (cases "displayPreferences p ?st3")
    case (Inl err)
    then show ?thesis using c3 by (simp add: displayPreview_def Let_def)
  next
    case (Inr st4)
    with displayPreferences_keeps [OF Inr] c3 show ?thesis
      by (simp add: displayPreview_def Let_def render_tail_keeps)
  qed
  then show ?thesis by (simp add: contact_mode_of_def)
qed

text \<open>C4 on the example preview with the single match Ann.\<close>

theorem C4_witness:
  "hubspot_contacts (example_preview [ann]) = Some [ann] \<and> truthy (c_id ann)
   \<and> selectedContactId (fst (displayPreview example_clock (example_preview [ann]) loaded_page)) = Str ''101''
   \<and> contact_mode_of (fst (displayPreview example_clock (example_preview [ann]) loaded_page)) = Selected"
proof -
  have a: "hubspot_contacts (example_preview [ann]) = Some [ann]" by code_simp
  have b: "truthy (c_id ann)" by code_simp
  have c: "c_id ann = Str ''101''" by code_simp
  from C4_single_match_is_selected [OF a, of example_clock loaded_page] a b c
  show ?thesis by simp
qed

lemma trim_Nil [simp]: "trim [] = []"
  by (simp add: trim_def)

lemma hasPreferences_True_meaningful:
  "hasPreferences ps = Inr True \<Longrightarrow> list_ex meaningful_entry ps"
proof (induction ps)
  case Nil
  then show ?case by simp
next
  case (Cons e es)
  obtain k v where e: "e = (k, v)" by (cases e)
  show ?case
  proof (cases "has_preference_value e")
    case (Inl err)
    with Cons.prems show ?thesis by simp
  next
    case (Inr b)
    show ?thesis
    proof (cases b)
      case True
      with Inr e have "meaningful_entry e"
        by (cases v) (auto simp: meaningful_entry_def split: if_splits)
      then show ?thesis by simp
    next
      case False
      with Inr Cons show ?thesis by simp
    qed
  qed
qed

lemma hasPreferences_text:
  "list_all notes_entry_is_text ps \<Longrightarrow> hasPreferences ps = Inr (list_ex meaningful_entry ps)"
proof (induction ps)
  case Nil
  then show ?case by simp
next
  case (Cons e es)
  obtain k v where e: "e = (k, v)" by (cases e)
  from Cons.prems e have "has_preference_value e = Inr (meaningful_entry e)"
    by (cases v) (auto simp: meaningful_entry_def notes_entry_is_text_def)
  with Cons show ?case by simp
qed

lemma displayPreferences_not_meaningful:
  assumes "\<not> meaningful_preferences p"
  shows "displayPreferences p st = Inl TypeError
         \<or> displayPreferences p st
            = Inr (st\<lparr>investorFoundHidden := True, multipleInvestorsHidden := True,
                      investorNotFoundHidden := True, updateInvestorPrefsCheckbox := False,
                      skipInvestorPrefs := True\<rparr>)"
proof (cases "hasPreferences (case preferences p of None \<Rightarrow> [] | Some ps \<Rightarrow> ps)")
  case (Inl err)
  then show ?thesis by (cases err) (simp add: displayPreferences_def)
next
  case (Inr has)
  with assms hasPreferences_True_meaningful have "\<not> has"
    by (auto simp: meaningful_preferences_def)
  with Inr show ?thesis by (simp add: displayPreferences_def Let_def)
qed

lemma displayPreferences_text:
  assumes "\<not> meaningful_preferences p" and "notes_are_text p"
  shows "displayPreferences p st
         = Inr (st\<lparr>investorFoundHidden := True, multipleInvestorsHidden := True,
                   investorNotFoundHidden := True, updateInvestorPrefsCheckbox := False,
                   skipInvestorPrefs := True\<rparr>)"
  using assms hasPreferences_text [of "case preferences p of None \<Rightarrow> [] | Some ps \<Rightarrow> ps"]
  by (simp add: displayPreferences_def meaningful_preferences_def notes_are_text_def Let_def)

lemma skipped_not_sent:
  assumes "\<not> updateInvestorPrefsCheckbox st \<or> skipInvestorPrefs st"
    and "sent (snd (handleConfirmAndExecute st)) = Some body"
  shows "\<not> update_investor_prefs (notion body)"
proof -
  from dispatched_payload [OF assms(2)] obtain pd tds where
    "body = build_payload (st\<lparr>confirmBtnDisabled := True, cancelBtnDisabled := True\<rparr>) pd tds"
    by blast
  with assms(1) show ?thesis
    by (auto simp: build_payload_def shouldUpdateInvestorPrefs_def)
qed

text \<open>
  C5 (as amended). For every preview whose preference set is not meaningful (no
  multi-value field is non-empty and the free-text notes are empty after trimming),
  after \<open>displayPreview\<close> the investor mode is neither "matched" nor "create new" and no
  investor page id is set. When the notes field holds text, as the data model has it,
  the render completes, a skip is recorded (the mode is "skip" and the investor check
  box is unticked), the three investor sections are hidden, and a request confirmed
  from this state does not update investor preferences. The user can tick the check
  box again, which clears the skip.
\<close>

theorem C5_empty_preferences_are_skipped:
  assumes "\<not> meaningful_preferences p"
  shows "investor_mode_of (fst (displayPreview clock p st)) \<noteq> Matched
       \<and> investor_mode_of (fst (displayPreview clock p st)) \<noteq> CreateNew
       \<and> investorPageId (fst (displayPreview clock p st)) = Null
       \<and> (notes_are_text p \<longrightarrow>
            snd (displayPreview clock p st) = None
            \<and> skipInvestorPrefs (fst (displayPreview clock p st))
            \<and> investor_mode_of (fst (displayPreview clock p st)) = SkipInvestor
            \<and> \<not> updateInvestorPrefsCheckbox (fst (displayPreview clock p st))
            \<and> investorFoundHidden (fst (displayPreview clock p st))
            \<and> multipleInvestorsHidden (fst (displayPreview clock p st))
            \<and> investorNotFoundHidden (fst (displayPreview clock p st))
            \<and> (\<forall>body. sent (snd (handleConfirmAndExecute (fst (displayPreview clock p st)))) = Some body
                  \<longrightarrow> \<not> update_investor_prefs (notion body)))"
proof -
  let ?st3 = "displayParsedDeals clock p (displayContactSection p (resetSelections st))"
  let ?st4 = "?st3\<lparr>investorFoundHidden := True, multipleInvestorsHidden := True,
                   investorNotFoundHidden := True, updateInvestorPrefsCheckbox := False,
                   skipInvestorPrefs := True\<rparr>"
  let ?tds = "case todos p of None \<Rightarrow> [] | Some ts \<Rightarrow> ts"
  have n3: "investorPageId ?st3 = Null"
    by (simp add: displayParsedDeals_keeps displayContactSection_investor resetSelections_fields)
  have finished: "displayPreferences p ?st3 = Inr ?st4
              \<Longrightarrow> displayPreview clock p st = (showResults (displayTodos clock ?tds ?st4), None)"
    by (simp add: displayPreview_def Let_def)
  have stopped: "displayPreferences p ?st3 = Inl TypeError
              \<Longrightarrow> displayPreview clock p st = (?st3, Some TypeError)"
    by (simp add: displayPreview_def Let_def)
  have page: "investorPageId (fst (displayPreview clock p st)) = Null"
    using displayPreferences_not_meaningful [OF assms, of ?st3] n3 finished stopped
    by (auto simp: render_tail_keeps)
  then have modes: "investor_mode_of (fst (displayPreview clock p st)) \<noteq> Matched
       \<and> investor_mode_of (fst (displayPreview clock p st)) \<noteq> CreateNew"
    by (simp add: investor_mode_of_def)
  have when_text: "notes_are_text p \<longrightarrow>
            snd (displayPreview clock p st) = None
            \<and> skipInvestorPrefs (fst (displayPreview clock p st))
            \<and> investor_mode_of (fst (displayPreview clock p st)) = SkipInvestor
            \<and> \<not> updateInvestorPrefsCheckbox (fst (displayPreview clock p st))
            \<and> investorFoundHidden (fst (displayPreview clock p st))
            \<and> multipleInvestorsHidden (fst (displayPreview clock p st))
            \<and> investorNotFoundHidden (fst (displayPreview clock p st))
            \<and> (\<forall>body. sent (snd (handleConfirmAndExecute (fst (displayPreview clock p st)))) = Some body
                  \<longrightarrow> \<not> update_investor_prefs (notion body))"
  proof
    assume t: "notes_are_text p"
    have r: "displayPreview clock p st = (showResults (displayTodos clock ?tds ?st4), None)"
      using finished displayPreferences_text [OF assms t, of ?st3] by simp
    have s: "skipInvestorPrefs (fst (displayPreview clock p st))"
      and u: "\<not> updateInvestorPrefsCheckbox (fst (displayPreview clock p st))"
      by (simp_all add: r render_tail_keeps)
    have h: "investorFoundHidden (fst (displayPreview clock p st))
            \<and> multipleInvestorsHidden (fst (displayPreview clock p st))
            \<and> investorNotFoundHidden (fst (displayPreview clock p st))"
      by (simp add: r render_tail_keeps)
    have m: "investor_mode_of (fst (displayPreview clock p st)) = SkipInvestor"
      using s by (simp add: investor_mode_of_def)
    have n: "\<forall>body. sent (snd (handleConfirmAndExecute (fst (displayPreview clock p st)))) = Some body
                  \<longrightarrow> \<not> update_investor_prefs (notion body)"
      using skipped_not_sent s by blast
    from r s u h m n show "snd (displayPreview clock p st) = None
            \<and> skipInvestorPrefs (fst (displayPreview clock p st))
            \<and> investor_mode_of (fst (displayPreview clock p st)) = SkipInvestor
            \<and> \<not> updateInvestorPrefsCheckbox (fst (displayPreview clock p st))
            \<and> investorFoundHidden (fst (displayPreview clock p st))
            \<and> multipleInvestorsHidden (fst (displayPreview clock p st))
            \<and> investorNotFoundHidden (fst (displayPreview clock p st))
            \<and> (\<forall>body. sent (snd (handleConfirmAndExecute (fst (displayPreview clock p st)))) = Some body
                  \<longrightarrow> \<not> update_investor_prefs (notion body))"
      by simp
  qed
  from modes page when_text show ?thesis by blast
qed

text \<open>
  The amended C5 on a preview whose preferences are an empty list and blank notes,
  although an investor was found in Notion.
\<close>

theorem C5_witness:
  "\<not> meaningful_preferences empty_prefs_preview \<and> notes_are_text empty_prefs_preview
   \<and> snd (displayPreview example_clock empty_prefs_preview
            (loaded_page\<lparr>processedData := Some empty_prefs_preview\<rparr>)) = None
   \<and> investor_mode_of (fst (displayPreview example_clock empty_prefs_preview
            (loaded_page\<lparr>processedData := Some empty_prefs_preview\<rparr>))) = SkipInvestor
   \<and> map_option (update_investor_prefs \<circ> notion)
        (sent (snd (handleConfirmAndExecute (fst (displayPreview example_clock empty_prefs_preview
            (loaded_page\<lparr>processedData := Some empty_prefs_preview\<rparr>)))))) = Some False"
proof -
  let ?st = "fst (displayPreview example_clock empty_prefs_preview
            (loaded_page\<lparr>processedData := Some empty_prefs_preview\<rparr>))"
  have a: "\<not> meaningful_preferences empty_prefs_preview" by code_simp
  have b: "notes_are_text empty_prefs_preview" by code_simp
  have "sent (snd (handleConfirmAndExecute ?st)) \<noteq> None" by code_simp
  then obtain body where r: "sent (snd (handleConfirmAndExecute ?st)) = Some body"
    by blast
  from C5_empty_preferences_are_skipped [OF a, of example_clock
      "loaded_page\<lparr>processedData := Some empty_prefs_preview\<rparr>"] a b r
  show ?thesis by simp
qed


text \<open>
  C5 as stated fails in its last part, that empty preference sets are never written:
  after the render of a preview with an empty preference set, one tick of the investor
  check box clears the skip, and the request that is then confirmed asks for the update
  with the empty set.
\<close>

theorem C5_counterexample:
  "\<not> meaningful_preferences empty_prefs_preview
   \<and> processedData empty_prefs_reenabled = Some empty_prefs_preview
   \<and> resultsSectionHidden empty_prefs_reenabled = False
   \<and> map_option (\<lambda>body. (update_investor_prefs (notion body), nt_preferences (notion body)))
        (sent (snd (handleConfirmAndExecute empty_prefs_reenabled)))
     = Some (True, [(''Sectors'', PArr []), (''Preference Notes'', PStr [CHR '' '', CHR 0xA0])])"
  by code_simp

section \<open>Properties of the to-do table\<close>

lemma selected_todos_general:
  assumes "todos q = Some ts"
  shows "selected_todos rows boxes (Some q)
         = Inr (map (\<lambda>row. (ts ! row_index row)
                       \<lparr>due_date := js_or (date_selector_value rows (row_index row))
                                          (due_date (ts ! row_index row))\<rparr>)
                    (filter (\<lambda>row. row_checked row \<and> row_index row < length ts) boxes))"
  using assms by (induction boxes) (simp_all add: Let_def)

lemma find_own_row:
  "distinct (map row_index rows) \<Longrightarrow> row \<in> set rows
   \<Longrightarrow> find (\<lambda>r. row_index r = row_index row) rows = Some row"
  by (induction rows) auto

lemma rows_rendered_index:
  assumes "rows_rendered clock n rows"
  shows "distinct (map row_index rows)" and "row \<in> set rows \<Longrightarrow> row_index row < n"
proof -
  from assms have m: "map row_index rows = [0..<n]" by (simp add: rows_rendered_def)
  then show "distinct (map row_index rows)" by simp
  assume "row \<in> set rows"
  then have "row_index row \<in> set (map row_index rows)" by simp
  with m show "row_index row < n" by simp
qed

lemma rows_rendered_date:
  assumes "rows_rendered clock n rows" and "row \<in> set rows"
  shows "row_date row \<in> set (dates clock)"
  using assms by (simp add: rows_rendered_def list_all_iff)

lemma rows_rendered_new: "rows_rendered clock n (map (new_todo_row clock) [0..<n])"
proof -
  have "map row_index (map (new_todo_row clock) [0..<n]) = [0..<n]"
    by (simp add: new_todo_row_def comp_def)
  then show ?thesis
    by (simp add: rows_rendered_def list_all_iff new_todo_row_def dates_def)
qed

lemma rows_rendered_update:
  assumes r: "rows_rendered clock n rows" and i: "i < length rows"
    and x: "row_index x = row_index (rows ! i)" "row_options x = dates clock"
           "row_date x \<in> set (dates clock)"
  shows "rows_rendered clock n (rows[i := x])"
proof -
  have "map row_index (rows[i := x]) = (map row_index rows)[i := row_index (rows ! i)]"
    by (simp add: map_update x(1))
  also have "\<dots> = map row_index rows"
    using i by (simp add: list_update_same_conv)
  finally have m: "map row_index (rows[i := x]) = [0..<n]"
    using r by (simp add: rows_rendered_def)
  have "\<And>row. row \<in> set (rows[i := x]) \<Longrightarrow> row = x \<or> row \<in> set rows"
    using set_update_subset_insert [of rows i x] by auto
  with r x(2,3) have "list_all (\<lambda>row. row_options row = dates clock \<and> row_date row \<in> set (dates clock))
                       (rows[i := x])"
    by (auto simp: rows_rendered_def list_all_iff)
  with m show ?thesis by (simp add: rows_rendered_def)
qed

lemma rows_rendered_set_row_checked:
  assumes "rows_rendered clock n rows"
  shows "rows_rendered clock n (set_row_checked i b rows)"
proof (cases "i < length rows")
  case True
  then have "rows ! i \<in> set rows" by simp
  with assms have "row_options (rows ! i) = dates clock" "row_date (rows ! i) \<in> set (dates clock)"
    by (simp_all add: rows_rendered_def list_all_iff)
  with True assms show ?thesis
    by (simp add: set_row_checked_def rows_rendered_update)
next
  case False
  with assms show ?thesis by (simp add: set_row_checked_def)
qed


lemma rows_rendered_choose_row_date:
  assumes "rows_rendered clock n rows"
  shows "rows_rendered clock n (choose_row_date i k rows)"
proof (cases "i < length rows \<and> k < length (row_options (rows ! i))")
  case True
  then have "rows ! i \<in> set rows" by simp
  with assms have o: "row_options (rows ! i) = dates clock"
    by (simp add: rows_rendered_def list_all_iff)
  with True have "row_options (rows ! i) ! k \<in> set (dates clock)"
    by simp
  with True o assms show ?thesis
    by (simp add: choose_row_date_def rows_rendered_update)
next
  case False
  with assms show ?thesis by (auto simp: choose_row_date_def)
qed

lemma rows_rendered_select_all:
  assumes "rows_rendered clock n rows"
  shows "rows_rendered clock n (map (\<lambda>row. row\<lparr>row_checked := b\<rparr>) rows)"
proof -
  have "map row_index (map (\<lambda>row. row\<lparr>row_checked := b\<rparr>) rows) = map row_index rows"
    by (simp add: comp_def)
  with assms show ?thesis
    by (simp add: rows_rendered_def list_all_iff)
qed

lemma showHubSpotActionsCard_rows:
  "todoRows (showHubSpotActionsCard st) = todoRows st"
  "processedData (showHubSpotActionsCard st) = processedData st"
  by (simp_all add: showHubSpotActionsCard_def updateTaskTitle_def)

lemma handler_rows:
  "todoRows (handleContactSelection v t st) = todoRows st"
  "processedData (handleContactSelection v t st) = processedData st"
  "todoRows (handleCreateInvestor st) = todoRows st"
  "processedData (handleCreateInvestor st) = processedData st"
  "todoRows (handleHubSpotActionChange v st) = todoRows st"
  "processedData (handleHubSpotActionChange v st) = processedData st"
  "todoRows (handleDealSelection v d st) = todoRows st"
  "processedData (handleDealSelection v d st) = processedData st"
  "todoRows (handleDealSearchSelection v d st) = todoRows st"
  "processedData (handleDealSearchSelection v d st) = processedData st"
  by (simp_all add: handleContactSelection_def showHubSpotActionsCard_rows
      handleCreateInvestor_def showPreviewError_def handleHubSpotActionChange_def
      handleDealSelection_def handleDealSearchSelection_def populateDealFields_def Let_def
      split: option.splits)

lemma fire_keeps_processedData: "processedData (fire e st) = processedData st"
  by (cases e)
     (simp_all add: handler_rows handleSkipHubspot_def handleInvestorSelection_def
        handleContactOptionClick_def handleInvestorOptionClick_def
        handleSkipInvestorPrefs_def handleInvestorPrefsCheckboxChange_def
        handleSelectAllTodos_def Let_def)

lemma fire_keeps_rows_rendered:
  assumes "rows_rendered clock n (todoRows st)"
  shows "rows_rendered clock n (todoRows (fire e st))"
  using assms
  by (cases e)
     (simp_all add: handler_rows handleSkipHubspot_def handleInvestorSelection_def
        handleContactOptionClick_def handleInvestorOptionClick_def
        handleSkipInvestorPrefs_def handleInvestorPrefsCheckboxChange_def
        handleSelectAllTodos_def Let_def rows_rendered_set_row_checked
        rows_rendered_choose_row_date rows_rendered_select_all)

lemma fire_all_keeps:
  assumes "rows_rendered clock n (todoRows st)"
  shows "rows_rendered clock n (todoRows (fire_all es st))
         \<and> processedData (fire_all es st) = processedData st"
  using assms
proof (induction es arbitrary: st)
  case Nil
  then show ?case by (simp add: fire_all_def)
next
  case (Cons e es)
  from Cons.IH [OF fire_keeps_rows_rendered [OF Cons.prems, of e]]
  show ?case by (simp add: fire_all_def fire_keeps_processedData)
qed


lemma displayContactSection_processedData:
  "processedData (displayContactSection p st) = processedData st"
  by (simp add: displayContactSection_def showHubSpotActionsCard_rows Let_def)

lemma displayPreview_rendered:
  assumes "displayPreview clock p st0 = (st1, None)"
  shows "todoRows st1
         = map (new_todo_row clock) [0..<length (case todos p of None \<Rightarrow> [] | Some ts \<Rightarrow> ts)]"
    and "processedData st1 = processedData st0"
proof -
  let ?st3 = "displayParsedDeals clock p (displayContactSection p (resetSelections st0))"
  let ?tds = "case todos p of None \<Rightarrow> [] | Some ts \<Rightarrow> ts"
  from assms obtain st4 where
    d: "displayPreferences p ?st3 = Inr st4"
    and s: "st1 = showResults (displayTodos clock ?tds st4)"
    by (auto simp: displayPreview_def Let_def split: sum.splits)
  from s show "todoRows st1 = map (new_todo_row clock) [0..<length ?tds]"
    by (simp add: render_tail_keeps)
  from s displayPreferences_keeps(3) [OF d] show "processedData st1 = processedData st0"
    by (simp add: render_tail_keeps displayParsedDeals_keeps
        displayContactSection_processedData resetSelections_fields)
qed

lemma selected_dates_sent:
  assumes nonempty: "\<And>d. d \<in> set (dates clock) \<Longrightarrow> d \<noteq> []"
    and r: "rows_rendered clock (length tds) (todoRows st)"
    and pd: "processedData st = Some p"
    and tds: "tds = (case todos p of None \<Rightarrow> [] | Some ts \<Rightarrow> ts)"
  shows "getSelectedTodos st = Inr (todos_with_selected_dates tds (todoRows st))"
proof (cases "todos p")
  case None
  with tds r have "todoRows st = []" by (simp add: rows_rendered_def)
  then show ?thesis by (simp add: getSelectedTodos_def todos_with_selected_dates_def)
next
  case (Some ts)
  with tds have e: "tds = ts" by simp
  have f: "filter (\<lambda>row. row_checked row \<and> row_index row < length ts) (todoRows st)
           = filter row_checked (todoRows st)"
    using rows_rendered_index(2) [OF r] e by (auto intro: filter_cong)
  have m: "\<And>row. row \<in> set (todoRows st) \<Longrightarrow>
             js_or (date_selector_value (todoRows st) (row_index row)) (due_date (ts ! row_index row))
             = Str (row_date row)"
  proof -
    fix row assume i: "row \<in> set (todoRows st)"
    from find_own_row [OF rows_rendered_index(1) [OF r] i]
    have "date_selector_value (todoRows st) (row_index row) = Str (row_date row)"
      by (simp add: date_selector_value_def)
    moreover from nonempty rows_rendered_date [OF r i] have "row_date row \<noteq> []" by blast
    ultimately show "js_or (date_selector_value (todoRows st) (row_index row))
                       (due_date (ts ! row_index row)) = Str (row_date row)"
      by (simp add: js_or_def)
  qed
  show ?thesis
    using m by (simp add: getSelectedTodos_def pd selected_todos_general [OF Some] f
        todos_with_selected_dates_def e cong: map_cong)
qed

text \<open>
  C10. Let a preview be rendered and the user then act on the page in any way. Right
  after the render every row is checked with tomorrow selected; at any later moment
  every row's selector holds one of the four offsets (tomorrow, 7, 30 or 90 days);
  \<open>getSelectedTodos\<close> returns exactly the to-dos of the checked rows, each with the
  date of its own selector as due date, so that the due date parsed from the notes is
  never sent and unchecked rows are left out; and the to-dos of a request that is sent
  are that list (or none when to-dos are off). Moreover, for any table at all, a checked
  box whose index has no entry in the preview's to-do list is left out and nothing
  fails. The date strings of the browser are not empty.
\<close>

theorem C10_todo_dates_come_from_the_selectors:
  assumes "list_all (\<lambda>n. clock n \<noteq> []) [1, 7, 30, 90]"
    and "processedData st0 = Some p"
    and "displayPreview clock p st0 = (st1, None)"
  shows "list_all (\<lambda>row. row_checked row \<and> row_date row = clock 1) (todoRows st1)
       \<and> list_all (\<lambda>row. row_date row \<in> set [clock 1, clock 7, clock 30, clock 90])
            (todoRows (fire_all es st1))
       \<and> getSelectedTodos (fire_all es st1)
         = Inr (todos_with_selected_dates (case todos p of None \<Rightarrow> [] | Some ts \<Rightarrow> ts)
                  (todoRows (fire_all es st1)))
       \<and> (\<forall>body. sent (snd (handleConfirmAndExecute (fire_all es st1))) = Some body \<longrightarrow>
             nt_todos (notion body)
             = (if shouldCreateTodos (fire_all es st1)
                then todos_with_selected_dates (case todos p of None \<Rightarrow> [] | Some ts \<Rightarrow> ts)
                       (todoRows (fire_all es st1))
                else []))
       \<and> (processedData s = Some q \<and> todos q = Some ts \<longrightarrow>
            getSelectedTodos s
            = Inr (map (\<lambda>row. (ts ! row_index row)
                           \<lparr>due_date := js_or (date_selector_value (todoRows s) (row_index row))
                                              (due_date (ts ! row_index row))\<rparr>)
                     (filter (\<lambda>row. row_checked row \<and> row_index row < length ts) (todoRows s))))"
proof -
  let ?tds = "case todos p of None \<Rightarrow> [] | Some ts \<Rightarrow> ts"
  let ?st = "fire_all es st1"
  have nonempty: "\<And>d. d \<in> set (dates clock) \<Longrightarrow> d \<noteq> []"
    using assms(1) by (auto simp: dates_def getDateDaysFromNow_def)
  note rendered = displayPreview_rendered [OF assms(3)]
  have r1: "rows_rendered clock (length ?tds) (todoRows st1)"
    by (simp add: rendered(1) rows_rendered_new)
  have first: "list_all (\<lambda>row. row_checked row \<and> row_date row = clock 1) (todoRows st1)"
    by (simp add: rendered(1) list_all_iff new_todo_row_def)
  from fire_all_keeps [OF r1, of es]
  have r: "rows_rendered clock (length ?tds) (todoRows ?st)"
    and pd: "processedData ?st = Some p"
    by (simp_all add: rendered(2) assms(2))
  have offsets: "list_all (\<lambda>row. row_date row \<in> set [clock 1, clock 7, clock 30, clock 90])
                   (todoRows ?st)"
    using r by (simp add: rows_rendered_def list_all_iff dates_def getDateDaysFromNow_def)
  have sel: "getSelectedTodos ?st = Inr (todos_with_selected_dates ?tds (todoRows ?st))"
    by (rule selected_dates_sent [OF nonempty r pd]) simp_all
  have body: "\<forall>body. sent (snd (handleConfirmAndExecute ?st)) = Some body \<longrightarrow>
             nt_todos (notion body)
             = (if shouldCreateTodos ?st then todos_with_selected_dates ?tds (todoRows ?st) else [])"
  proof (intro allI impI)
    fix body assume "sent (snd (handleConfirmAndExecute ?st)) = Some body"
    from dispatched_payload [OF this] sel
    show "nt_todos (notion body)
          = (if shouldCreateTodos ?st then todos_with_selected_dates ?tds (todoRows ?st) else [])"
      by (auto simp: build_payload_def split: if_splits)
  qed
  have dropped: "processedData s = Some q \<and> todos q = Some ts \<longrightarrow>
            getSelectedTodos s
            = Inr (map (\<lambda>row. (ts ! row_index row)
                           \<lparr>due_date := js_or (date_selector_value (todoRows s) (row_index row))
                                              (due_date (ts ! row_index row))\<rparr>)
                     (filter (\<lambda>row. row_checked row \<and> row_index row < length ts) (todoRows s)))"
    by (auto simp: getSelectedTodos_def selected_todos_general)
  from first offsets sel body dropped show ?thesis by blast
qed

text \<open>
  C10 on the example preview: the user unchecks the first to-do and picks "30 days"
  for the second. A table with a stale extra row of index 7 gives the same three
  to-dos as the table without it.
\<close>

theorem C10_witness:
  "list_all (\<lambda>n. example_clock n \<noteq> []) [1, 7, 30, 90]
   \<and> processedData notes_received = Some (example_preview [ann])
   \<and> snd (displayPreview example_clock (example_preview [ann]) notes_received) = None
   \<and> getSelectedTodos todos_edited
     = Inr (todos_with_selected_dates example_todos (todoRows todos_edited))
   \<and> todos_with_selected_dates example_todos (todoRows todos_edited)
     = [(example_todos ! 1)\<lparr>due_date := Str ''2025-03-31''\<rparr>,
        (example_todos ! 2)\<lparr>due_date := Str ''2025-03-02''\<rparr>]
   \<and> getSelectedTodos stale_row
     = Inr (map (\<lambda>t. t\<lparr>due_date := Str ''2025-03-02''\<rparr>) example_todos)"
proof -
  let ?p = "example_preview [ann]"
  let ?st1 = "fst (displayPreview example_clock ?p notes_received)"
  have a: "list_all (\<lambda>n. example_clock n \<noteq> []) [1, 7, 30, 90]" by code_simp
  have b: "processedData notes_received = Some ?p" by code_simp
  have n: "snd (displayPreview example_clock ?p notes_received) = None" by code_simp
  then have c: "displayPreview example_clock ?p notes_received = (?st1, None)"
    by (simp add: prod_eq_iff)
  have t: "todos ?p = Some example_todos" by code_simp
  have e: "todos_edited = fire_all [TodoToggled 0 False, TodoDateChosen 1 2] ?st1"
    by (simp add: todos_edited_def)
  have v: "todos_with_selected_dates example_todos (todoRows todos_edited)
           = [(example_todos ! 1)\<lparr>due_date := Str ''2025-03-31''\<rparr>,
              (example_todos ! 2)\<lparr>due_date := Str ''2025-03-02''\<rparr>]"
    by code_simp
  have s: "processedData stale_row = Some ?p" by code_simp
  have w: "map (\<lambda>row. (example_todos ! row_index row)
                   \<lparr>due_date := js_or (date_selector_value (todoRows stale_row) (row_index row))
                                      (due_date (example_todos ! row_index row))\<rparr>)
             (filter (\<lambda>row. row_checked row \<and> row_index row < length example_todos)
                (todoRows stale_row))
           = map (\<lambda>t. t\<lparr>due_date := Str ''2025-03-02''\<rparr>) example_todos"
    by code_simp
  from C10_todo_dates_come_from_the_selectors [OF a b c,
      of "[TodoToggled 0 False, TodoDateChosen 1 2]" stale_row ?p example_todos]
    a b n t e v s w
  show ?thesis by simp
qed


end
